theory Spec2Isabelle
  imports
    Main
    "HOL-Library.Char_ord"
    "HOL-Library.List_Lexorder"
    "HOL-Library.Sublist"
    "HOL-Library.AList"
    "HOL-Library.Multiset"
begin

section \<open>Go strings and the standard-library functions main.go calls\<close>

text \<open>
  A Go string is a sequence of bytes, here a \<open>char list\<close>. The functions of package
  \<open>strings\<close> that main.go calls are modelled on bytes. Where the library leaves the
  ASCII fast path and consults the Unicode tables (letter case, white space), or computes
  in floating point (\<open>time.ParseDuration\<close>), the library function is a field of the
  record \<open>stdlib\<close>: every result below holds for whatever these functions compute.
\<close>

type_synonym duration = int \<comment> \<open>\<open>time.Duration\<close>: nanoseconds\<close>

record goerror =
  Error :: string \<comment> \<open>the text \<open>err.Error()\<close> returns\<close>
  isNetError :: bool \<comment> \<open>whether \<open>errors.As(err, &nErr)\<close> finds a \<open>net.Error\<close>\<close>

record stdlib =
  unicodeToLower :: "string \<Rightarrow> string"
    \<comment> \<open>\<open>strings.Map(unicode.ToLower, s)\<close>, the slow path of \<open>strings.ToLower\<close>\<close>
  unicodeTrim :: "string \<Rightarrow> string"
    \<comment> \<open>\<open>strings.TrimFunc(s, unicode.IsSpace)\<close>\<close>
  unicodeTrimRight :: "string \<Rightarrow> string"
    \<comment> \<open>\<open>strings.TrimRightFunc(s, unicode.IsSpace)\<close>\<close>
  ParseDuration :: "string \<Rightarrow> goerror + duration"
    \<comment> \<open>\<open>time.ParseDuration\<close>; \<open>Inl\<close> is its error\<close>

definition isASCII :: "char \<Rightarrow> bool" where
  "isASCII c = ((of_char c :: nat) < 128)"

definition isUpperByte :: "char \<Rightarrow> bool" where
  "isUpperByte c = (CHR ''A'' \<le> c \<and> c \<le> CHR ''Z'')"

definition lowerByte :: "char \<Rightarrow> char" where
  "lowerByte c = (if isUpperByte c then char_of ((of_char c :: nat) + 32) else c)"

text \<open>
  \<open>strings.ToLower\<close>: a string of ASCII bytes only is mapped byte by byte (and returned
  as it is when it has no upper-case letter); any other string goes through the Unicode
  tables.
\<close>

definition ToLower :: "stdlib \<Rightarrow> string \<Rightarrow> string" where
  "ToLower L s =
     (if list_all isASCII s
      then (if list_ex isUpperByte s then map lowerByte s else s)
      else unicodeToLower L s)"

definition hasPrefix :: "string \<Rightarrow> string \<Rightarrow> bool" where
  "hasPrefix s p = (length p \<le> length s \<and> take (length p) s = p)"

text \<open>
  \<open>strings.Index\<close>: the index of the first instance of \<open>sub\<close> in \<open>s\<close>, or \<open>-1\<close>;
  \<open>strings.Contains(s, sub)\<close> is \<open>Index(s, sub) >= 0\<close>.
\<close>

fun Index :: "string \<Rightarrow> string \<Rightarrow> int" where
  "Index [] sub = (if sub = [] then 0 else -1)"
| "Index (c # cs) sub =
     (if hasPrefix (c # cs) sub then 0
      else (let r = Index cs sub in if r < 0 then -1 else r + 1))"

definition Contains :: "string \<Rightarrow> string \<Rightarrow> bool" where
  "Contains s sub = (0 \<le> Index s sub)"

text \<open>
  \<open>strings.ReplaceAll(s, old, new)\<close> for a non-empty \<open>old\<close>: the non-overlapping
  instances of \<open>old\<close>, found from the left, are replaced by \<open>new\<close>. (For an empty
  \<open>old\<close> Go inserts \<open>new\<close> at every rune boundary; main.go never passes one, and the
  model leaves \<open>s\<close> as it is.)
\<close>

fun ReplaceAll :: "string \<Rightarrow> string \<Rightarrow> string \<Rightarrow> string" where
  "ReplaceAll [] old new = []"
| "ReplaceAll (c # cs) old new =
     (if old \<noteq> [] \<and> hasPrefix (c # cs) old
      then new @ ReplaceAll (drop (length old) (c # cs)) old new
      else c # ReplaceAll cs old new)"

definition asciiSpace :: "char \<Rightarrow> bool" where
  "asciiSpace c = (c = CHR 0x09 \<or> c = CHR 0x0A \<or> c = CHR 0x0B \<or> c = CHR 0x0C
                   \<or> c = CHR 0x0D \<or> c = CHR 0x20)"

text \<open>
  \<open>strings.TrimSpace\<close>: ASCII white space is cut from the left, then from the right; as
  soon as either scan meets a byte that is not ASCII, the rest is left to the Unicode-aware
  trim (of both ends, or of the right end only).
\<close>

definition TrimSpace :: "stdlib \<Rightarrow> string \<Rightarrow> string" where
  "TrimSpace L s =
     (let s1 = dropWhile asciiSpace s in
      case s1 of
        [] \<Rightarrow> []
      | c # _ \<Rightarrow>
          if \<not> isASCII c then unicodeTrim L s1
          else (case dropWhile asciiSpace (rev s1) of
                  [] \<Rightarrow> []
                | d # r \<Rightarrow> if \<not> isASCII d then unicodeTrimRight L (rev (d # r))
                           else rev (d # r)))"

section \<open>Error classification\<close>

definition isNetworkErr :: "stdlib \<Rightarrow> goerror \<Rightarrow> bool" where
  "isNetworkErr L err =
     (if isNetError err then True
      else (let msg = ToLower L (Error err) in
            Contains msg ''no such host'' \<or> Contains msg ''connection refused''
            \<or> Contains msg ''timeout''))"

definition looksLikeAAD :: "stdlib \<Rightarrow> goerror \<Rightarrow> bool" where
  "looksLikeAAD L err =
     (let msg = ToLower L (Error err) in
      Contains msg ''aadsts'' \<or> Contains msg ''token'' \<or> Contains msg ''credential'')"

definition isAuthErr :: "stdlib \<Rightarrow> goerror \<Rightarrow> bool" where
  "isAuthErr L err =
     (let msg = ToLower L (Error err) in
      Contains msg ''unauthorized'' \<or> Contains msg ''401'' \<or> Contains msg ''authorization'')"

definition isPermissionErr :: "stdlib \<Rightarrow> goerror \<Rightarrow> bool" where
  "isPermissionErr L err =
     (let msg = ToLower L (Error err) in
      Contains msg ''forbidden'' \<or> Contains msg ''403'' \<or> Contains msg ''insufficient''
      \<or> Contains msg ''permission'')"

definition isDatabaseNotFound :: "stdlib \<Rightarrow> goerror \<Rightarrow> bool" where
  "isDatabaseNotFound L err =
     (let msg = ToLower L (Error err) in
      Contains msg ''database'' \<and> Contains msg ''not found'')"

definition isTableNotFound :: "stdlib \<Rightarrow> goerror \<Rightarrow> bool" where
  "isTableNotFound L err =
     (let msg = ToLower L (Error err) in
      Contains msg ''semantic'' \<and> (Contains msg ''table'' \<or> Contains msg ''name'')
      \<and> Contains msg ''not'')"

text \<open>A library and two errors for the concrete evaluations below.\<close>

definition asciiLib :: stdlib where
  "asciiLib =
     \<lparr> unicodeToLower = (\<lambda>s. s), unicodeTrim = (\<lambda>s. s), unicodeTrimRight = (\<lambda>s. s),
       ParseDuration = (\<lambda>s. if s = ''5s'' then Inr 5000000000
                             else if s = ''250ms'' then Inr 250000000
                             else Inl \<lparr> Error = ''time: invalid duration'', isNetError = False \<rparr>) \<rparr>"

definition errForbidden :: goerror where
  "errForbidden = \<lparr> Error = ''Request FORBIDDEN (403)'', isNetError = False \<rparr>"

definition errNoTable :: goerror where
  "errNoTable =
     \<lparr> Error = ''Semantic error: Failed to resolve table expression Named ProbeTest: Not found'',
       isNetError = False \<rparr>"

section \<open>Environment, formatting, and what a run does\<close>

type_synonym environ = "string \<Rightarrow> string option"

abbreviation nl :: string where
  "nl \<equiv> [CHR 0x0A]"

definition Getenv :: "environ \<Rightarrow> string \<Rightarrow> string" where
  \<comment> \<open>\<open>os.Getenv\<close>: the empty string when the variable is not set\<close>
  "Getenv env key = (case env key of None \<Rightarrow> [] | Some v \<Rightarrow> v)"

definition getenv :: "environ \<Rightarrow> string \<Rightarrow> string \<Rightarrow> string" where
  "getenv env key def = (let v = Getenv env key in if v = [] then def else v)"

definition getDurationEnv :: "stdlib \<Rightarrow> environ \<Rightarrow> string \<Rightarrow> duration \<Rightarrow> duration" where
  "getDurationEnv L env key def =
     (let v = TrimSpace L (Getenv env key) in
      if v = [] then def
      else (case ParseDuration L v of Inr d \<Rightarrow> d | Inl err \<Rightarrow> def))"

text \<open>The verb \<open>%d\<close> of package \<open>fmt\<close>: a decimal numeral, with a sign when negative.\<close>

function showDigits :: "int \<Rightarrow> string" where
  "showDigits i =
     (if i < 10 then [char_of (48 + i)]
      else showDigits (i div 10) @ [char_of (48 + i mod 10)])"
  by pat_completeness auto
termination
  by (relation "measure nat") auto

declare showDigits.simps [simp del]

definition showInt :: "int \<Rightarrow> string" where
  "showInt i = (if i < 0 then CHR ''-'' # showDigits (- i) else showDigits i)"

definition Milliseconds :: "duration \<Rightarrow> int" where
  \<comment> \<open>\<open>d.Milliseconds()\<close>: integer division of the nanoseconds, truncating towards zero\<close>
  "Milliseconds d = (if d < 0 then - ((- d) div 1000000) else d div 1000000)"

definition showErr :: "goerror option \<Rightarrow> string" where
  \<comment> \<open>the verb \<open>%v\<close> on an \<open>error\<close>; \<open>None\<close> is the nil error\<close>
  "showErr err = (case err of None \<Rightarrow> ''<nil>'' | Some e \<Rightarrow> Error e)"

text \<open>
  What a run does, as the list of its observable events in order. \<open>Exit\<close> ends the
  process: \<open>os.Exit\<close> (and \<open>log.Fatalf\<close>, which prints and calls \<open>os.Exit(1)\<close>)
  terminates the program at once, and the functions deferred by then do not run.
  A call to the service carries the timeout of its context, the database and the text of
  the statement. \<open>NewClient\<close> is the call of \<open>azkustodata.New\<close> for a cluster URL
  (the client exists when the call returns no error), \<open>CloseClient\<close> and
  \<open>CloseDataset\<close> are the deferred \<open>Close\<close> calls, and \<open>Stderr\<close> holds the
  message of \<open>log.Fatalf\<close> without the time the logger puts before it.
\<close>

datatype event =
    NewClient string
  | MgmtCall duration string string
  | QueryCall duration string string
  | IterativeQueryCall duration string string
  | CloseClient
  | CloseDataset
  | Stdout string
  | Stderr string
  | Exit int

definition logFatalf :: "string \<Rightarrow> event list" where
  "logFatalf msg = [Stderr msg, Exit 1]"

definition okTimed :: "string \<Rightarrow> duration \<Rightarrow> string \<Rightarrow> event list" where
  "okTimed step d msg =
     [Stdout (''OK '' @ step @ '' ('' @ showInt (Milliseconds d) @ ''ms): '' @ msg @ nl)]"

definition failTimed :: "string \<Rightarrow> duration \<Rightarrow> string \<Rightarrow> goerror option \<Rightarrow> string \<Rightarrow> event list" where
  "failTimed step d msg err suggest =
     [Stdout (''FAIL '' @ step @ '' ('' @ showInt (Milliseconds d) @ ''ms): '' @ msg @ '': ''
              @ showErr err @ nl)]
     @ (if suggest \<noteq> [] then [Stdout (''SUGGEST '' @ step @ '': '' @ suggest @ nl)] else [])
     @ [Exit 1]"

definition fail :: "string \<Rightarrow> string \<Rightarrow> goerror option \<Rightarrow> string \<Rightarrow> event list" where
  "fail step msg err suggest =
     [case err of
        Some e \<Rightarrow> Stdout (''FAIL '' @ step @ '': '' @ msg @ '': '' @ Error e @ nl)
      | None \<Rightarrow> Stdout (''FAIL '' @ step @ '': '' @ msg @ nl)]
     @ (if suggest \<noteq> [] then [Stdout (''SUGGEST '' @ step @ '': '' @ suggest @ nl)] else [])
     @ [Exit 1]"

definition suggestionForAuth :: "goerror \<Rightarrow> string" where
  "suggestionForAuth err =
     ''Ensure Azure auth is available: run '' @ [CHR 0x27] @ ''az login'' @ [CHR 0x27]
     @ '' or configure DefaultAzureCredential (AZURE_TENANT_ID, AZURE_CLIENT_ID/SECRET).''"

definition suggestionForEndpointOrAuth :: "stdlib \<Rightarrow> goerror \<Rightarrow> string" where
  "suggestionForEndpointOrAuth L err =
     (if isNetworkErr L err
      then ''Verify KUSTO_CLUSTER endpoint is correct (https://<cluster>.<region>.kusto.windows.net) and reachable.''
      else if looksLikeAAD L err \<or> isAuthErr L err then suggestionForAuth err
      else ''Check endpoint and authentication.'')"

definition suggestionForDatabase :: "stdlib \<Rightarrow> goerror \<Rightarrow> string \<Rightarrow> string" where
  "suggestionForDatabase L err db =
     (if isDatabaseNotFound L err
      then ''Database '' @ [CHR 0x27] @ db @ [CHR 0x27]
           @ '' not found. Verify KUSTO_DATABASE or create it (see kusto.sh).''
      else if isPermissionErr L err
      then ''You may lack database permissions. Ensure your identity has access (e.g., Admin/User role).''
      else ''Verify KUSTO_DATABASE and your permissions.'')"

definition suggestionForPermissions :: string where
  "suggestionForPermissions =
     ''Grant your identity read access to the database/table (e.g., Admin/User role).''"

definition suggestionForQuery :: "string \<Rightarrow> string" where
  "suggestionForQuery table =
     ''Investigate query or connectivity issues for table '' @ [CHR 0x27] @ table @ [CHR 0x27] @ ''.''"

text \<open>
  \<open>resolveClusterURL\<close> and \<open>getenvOrExit\<close> either return a string (\<open>Inr\<close>) or end
  the process through \<open>log.Fatalf\<close> (\<open>Inl\<close>, the events of that end).
\<close>

definition resolveClusterURL :: "stdlib \<Rightarrow> environ \<Rightarrow> string \<Rightarrow> event list + string" where
  "resolveClusterURL L env clusterName =
     (if TrimSpace L clusterName \<noteq> []
      then Inr (''https://'' @ TrimSpace L clusterName @ ''.eastus.kusto.windows.net'')
      else (let v = TrimSpace L (Getenv env ''KUSTO_CLUSTER'') in
            if v \<noteq> [] then Inr v
            else Inl (logFatalf (''cluster not provided. Usage: '' @ [CHR 0x27]
                   @ ''probe <cluster-name>'' @ [CHR 0x27]
                   @ '' or set KUSTO_CLUSTER to full URI''))))"

definition getenvOrExit :: "environ \<Rightarrow> string \<Rightarrow> string \<Rightarrow> event list + string" where
  "getenvOrExit env key hint =
     (let v = Getenv env key in
      if v = []
      then Inl (logFatalf (''environment variable '' @ key @ '' is required (e.g., '' @ hint @ '')''))
      else Inr v)"

section \<open>The result stream of the SDK\<close>

text \<open>
  A value a record can hold (\<open>interface{}\<close>): \<open>Bytes\<close> is a \<open>[]byte\<close>,
  \<open>BytesPtr\<close> a \<open>*[]byte\<close> (\<open>None\<close> the nil pointer), \<open>Slice\<close> a
  \<open>[]interface{}\<close>, \<open>GoMap\<close> a \<open>map[string]interface{}\<close>, given by an
  association list and being the map \<open>map_of\<close> makes of it. \<open>Other\<close> stands for the
  values main.go never looks into: \<open>bool\<close>, \<open>float64\<close>, pointers to scalars, times.
  The values of a row are of type \<open>value.Kusto\<close>: \<open>None\<close> is the nil interface,
  \<open>Some g\<close> a value whose \<open>GetValue()\<close> is \<open>g\<close>. The fields of a column, a row
  and a table are what the methods of the SDK return (\<open>Index_of\<close> is \<open>row.Index()\<close>);
  a table or row result is either an error or a table or row.
\<close>

datatype 'a govalue =
    Nil
  | GoString string
  | GoInt int
  | Bytes string
  | BytesPtr "string option"
  | Slice "'a govalue list"
  | GoMap "(string \<times> 'a govalue) list"
  | Other 'a

record column =
  cname :: string
  ctype :: string

definition types_Dynamic :: string where
  "types_Dynamic = ''dynamic''"

record 'a row =
  Index_of :: int
  Values :: "'a govalue option list"

datatype 'a rowResult = RowErr goerror | RowOk "'a row"

record 'a table =
  Name :: string
  Kind :: string
  Columns :: "column list"
  Rows :: "'a rowResult list"

datatype 'a tableResult = TableErr goerror | TableOk "'a table"

text \<open>
  The service and the SDK, as the answers they give to the calls of one run: creating the
  client for a cluster URL, a management command, a buffered query, an iterative query
  (the tables and rows its channels deliver, in order), and the time a probe step took.
\<close>

record 'a world =
  New :: "string \<Rightarrow> goerror option"
  Mgmt :: "duration \<Rightarrow> string \<Rightarrow> string \<Rightarrow> goerror option"
  Query :: "duration \<Rightarrow> string \<Rightarrow> string \<Rightarrow> goerror option"
  IterativeQuery :: "duration \<Rightarrow> string \<Rightarrow> string \<Rightarrow> goerror + 'a tableResult list"
  Since :: "string \<Rightarrow> duration"

section \<open>The probe\<close>

text \<open>The loop of \<open>queryHasAnyRow\<close> over the tables of the stream.\<close>

fun hasAnyRow :: "'a tableResult list \<Rightarrow> bool \<times> goerror option" where
  "hasAnyRow [] = (False, None)"
| "hasAnyRow (TableErr e # trs) = (False, Some e)"
| "hasAnyRow (TableOk t # trs) =
     (if Name t \<noteq> ''PrimaryResult'' then hasAnyRow trs
      else (case Rows t of
              [] \<Rightarrow> hasAnyRow trs
            | RowErr e # rrs \<Rightarrow> (False, Some e)
            | RowOk r # rrs \<Rightarrow> (True, None)))"

text \<open>
  \<open>queryHasAnyRow\<close>: its events, and the pair it returns. The deferred \<open>ds.Close()\<close>
  runs when the function returns after the dataset was opened.
\<close>

definition queryHasAnyRow ::
  "'a world \<Rightarrow> duration \<Rightarrow> string \<Rightarrow> string \<Rightarrow> event list \<times> bool \<times> goerror option" where
  "queryHasAnyRow W ctx db q =
     (case IterativeQuery W ctx db q of
        Inl err \<Rightarrow> ([IterativeQueryCall ctx db q], False, Some err)
      | Inr tables \<Rightarrow> ([IterativeQueryCall ctx db q, CloseDataset], hasAnyRow tables))"

definition sampleQuery :: "string \<Rightarrow> string \<Rightarrow> string" where
  \<comment> \<open>the text given to \<open>AddUnsafe\<close> in step 3\<close>
  "sampleQuery sampleTable expectMsg =
     sampleTable @ '' | where Message == '' @ [CHR 0x27]
     @ ReplaceAll expectMsg [CHR 0x27] [CHR 0x27, CHR 0x27] @ [CHR 0x27] @ '' | take 1''"

text \<open>Step 3, from the query to the end of \<open>runProbe\<close> and of the process.\<close>

definition probeSample ::
  "stdlib \<Rightarrow> 'a world \<Rightarrow> duration \<Rightarrow> string \<Rightarrow> string \<Rightarrow> string \<Rightarrow> event list" where
  "probeSample L W stepTimeout database sampleTable expectMsg =
     (let q = sampleQuery sampleTable expectMsg;
          (evs, has, derr) = queryHasAnyRow W stepTimeout database q;
          d = Since W ''data-sample''
      in evs @
        (case derr of
           Some e \<Rightarrow>
             if isTableNotFound L e
             then failTimed ''data-sample'' d (''sample table not found: '' @ sampleTable) derr
                    ''Run kusto.sh probe or create to initialize the sample table.''
             else if isPermissionErr L e
             then failTimed ''data-sample'' d (''no access to sample table: '' @ sampleTable) derr
                    suggestionForPermissions
             else failTimed ''data-sample'' d ''query failed for sample table'' derr
                    (suggestionForQuery sampleTable)
         | None \<Rightarrow>
             if \<not> has
             then failTimed ''data-sample'' d
                    (''expected row not found in '' @ sampleTable @ '' (Message=='' @ [CHR 0x27]
                     @ expectMsg @ [CHR 0x27] @ '')'')
                    None ''Initialize sample data via kusto.sh or verify ingestion.''
             else okTimed ''data-sample'' d
                    (''sample table ok: '' @ sampleTable @ '' contains expected data'')
                  @ [Stdout (''OK probe: endpoint, db, and data access validated'' @ nl),
                     CloseClient, Exit 0]))"

text \<open>Step 2 and what follows it.\<close>

definition probeDatabase ::
  "stdlib \<Rightarrow> 'a world \<Rightarrow> duration \<Rightarrow> string \<Rightarrow> string \<Rightarrow> string \<Rightarrow> event list" where
  "probeDatabase L W stepTimeout database sampleTable expectMsg =
     QueryCall stepTimeout database ''print 1'' #
     (case Query W stepTimeout database ''print 1'' of
        Some qErr \<Rightarrow>
          failTimed ''database'' (Since W ''database'') ''basic query failed'' (Some qErr)
            (suggestionForDatabase L qErr database)
      | None \<Rightarrow>
          okTimed ''database'' (Since W ''database'') (''db ok: '' @ database)
          @ probeSample L W stepTimeout database sampleTable expectMsg)"

text \<open>Step 1 and what follows it.\<close>

definition probeMgmt ::
  "stdlib \<Rightarrow> 'a world \<Rightarrow> duration \<Rightarrow> string \<Rightarrow> string \<Rightarrow> string \<Rightarrow> event list" where
  "probeMgmt L W stepTimeout database sampleTable expectMsg =
     MgmtCall stepTimeout [] ''.show version'' #
     (case Mgmt W stepTimeout [] ''.show version'' of
        Some mgmtErr \<Rightarrow>
          failTimed ''mgmt'' (Since W ''mgmt'') ''.show version failed'' (Some mgmtErr)
            (suggestionForEndpointOrAuth L mgmtErr)
      | None \<Rightarrow>
          okTimed ''mgmt'' (Since W ''mgmt'') ''cluster reachable''
          @ probeDatabase L W stepTimeout database sampleTable expectMsg)"

definition runProbe :: "stdlib \<Rightarrow> 'a world \<Rightarrow> environ \<Rightarrow> string \<Rightarrow> event list" where
  "runProbe L W env clusterArg =
     (case resolveClusterURL L env clusterArg of
        Inl dead \<Rightarrow> dead
      | Inr cluster \<Rightarrow>
          (let database = getenv env ''KUSTO_DATABASE'' ''sampledb'';
               sampleTable = getenv env ''KUSTO_SAMPLE_TABLE'' ''ProbeTest'';
               expectMsg = getenv env ''KUSTO_PROBE_EXPECT_MESSAGE'' ''kusto-sample-ok'';
               stepTimeout = getDurationEnv L env ''KUSTO_PROBE_TIMEOUT'' (3 * 1000000000)
           in NewClient cluster #
              (case New W cluster of
                 Some err \<Rightarrow>
                   fail ''auth/client'' ''failed to create Kusto client'' (Some err)
                     (suggestionForAuth err)
               | None \<Rightarrow> probeMgmt L W stepTimeout database sampleTable expectMsg)))"

section \<open>The initializer\<close>

definition appendCommand :: "string \<Rightarrow> string \<Rightarrow> string" where
  \<comment> \<open>the text given to \<open>AddUnsafe\<close> for \<open>qAppend\<close>\<close>
  "appendCommand sampleTable expectMsg =
     ''.set-or-append '' @ sampleTable @ '' <| print Message='' @ [CHR 0x27]
     @ ReplaceAll expectMsg [CHR 0x27] [CHR 0x27, CHR 0x27] @ [CHR 0x27] @ '', When=now()''"

definition runInitSample :: "stdlib \<Rightarrow> 'a world \<Rightarrow> environ \<Rightarrow> string \<Rightarrow> event list" where
  "runInitSample L W env clusterArg =
     (case resolveClusterURL L env clusterArg of
        Inl dead \<Rightarrow> dead
      | Inr cluster \<Rightarrow>
          (let database = getenv env ''KUSTO_DATABASE'' ''sampledb'';
               sampleTable = getenv env ''KUSTO_SAMPLE_TABLE'' ''ProbeTest'';
               expectMsg = getenv env ''KUSTO_PROBE_EXPECT_MESSAGE'' ''kusto-sample-ok'';
               ctx = 30 * 1000000000;
               qCreate = ''.create-merge table '' @ sampleTable @ '' (Message:string, When:datetime)'';
               qAppend = appendCommand sampleTable expectMsg
           in NewClient cluster #
              (case New W cluster of
                 Some err \<Rightarrow> logFatalf (''failed creating Kusto client: '' @ Error err)
               | None \<Rightarrow>
                   MgmtCall ctx database qCreate #
                   (case Mgmt W ctx database qCreate of
                      Some err \<Rightarrow> logFatalf (''failed to create/merge sample table: '' @ Error err)
                    | None \<Rightarrow>
                        MgmtCall ctx database qAppend #
                        (case Mgmt W ctx database qAppend of
                           Some err \<Rightarrow> logFatalf (''failed to append sample row: '' @ Error err)
                         | None \<Rightarrow>
                             [Stdout (''Initialized sample table '' @ sampleTable
                                      @ '' with message '' @ [CHR 0x27] @ expectMsg @ [CHR 0x27] @ nl),
                              CloseClient, Exit 0])))))"

section \<open>The default mode: rows to records to NDJSON\<close>

text \<open>
  Package \<open>encoding/json\<close>, as far as main.go does not decide it: parsing a payload
  (\<open>None\<close> when \<open>json.Unmarshal\<close> returns an error), and the encodings of a string,
  of a byte slice and of the values \<open>Other\<close> stands for (which may be refused, as a
  \<open>float64\<close> that is not a number is).
\<close>

record 'a jsonlib =
  Unmarshal :: "string \<Rightarrow> 'a govalue option"
  encodeString :: "string \<Rightarrow> string"
  encodeBytes :: "string \<Rightarrow> string"
  encodeOther :: "'a \<Rightarrow> goerror + string"

type_synonym 'a gomap = "(string \<times> 'a govalue) list"

definition setKey :: "string \<Rightarrow> 'a govalue \<Rightarrow> 'a gomap \<Rightarrow> 'a gomap" where
  \<comment> \<open>the assignment \<open>obj[k] = v\<close>\<close>
  "setKey k v obj = AList.update k v obj"

text \<open>
  One turn of the loop \<open>for i, c := range cols\<close> in \<open>main\<close>, for the values
  \<open>vals\<close> of the row.
\<close>

definition projectColumn ::
  "'a jsonlib \<Rightarrow> 'a govalue option list \<Rightarrow> nat \<times> column \<Rightarrow> 'a gomap \<Rightarrow> 'a gomap" where
  "projectColumn J vals ic obj =
     (let i = fst ic; c = snd ic in
      if i \<ge> length vals then obj
      else (case vals ! i of
              None \<Rightarrow> setKey (cname c) Nil obj
            | Some v \<Rightarrow>
                if ctype c = types_Dynamic
                then (case v of
                        Bytes b \<Rightarrow>
                          (case Unmarshal J b of
                             Some any \<Rightarrow> setKey (cname c) any obj
                           | None \<Rightarrow> setKey (cname c) (GoString b) obj)
                      | BytesPtr None \<Rightarrow> setKey (cname c) Nil obj
                      | BytesPtr (Some b) \<Rightarrow>
                          (case Unmarshal J b of
                             Some any \<Rightarrow> setKey (cname c) any obj
                           | None \<Rightarrow> setKey (cname c) (GoString b) obj)
                      | _ \<Rightarrow> setKey (cname c) v obj)
                else setKey (cname c) v obj))"

definition rowObject :: "'a jsonlib \<Rightarrow> 'a table \<Rightarrow> 'a row \<Rightarrow> 'a gomap" where
  "rowObject J t r =
     fold (projectColumn J (Values r)) (enumerate 0 (Columns t))
       (setKey ''_rowIndex'' (GoInt (Index_of r))
         (setKey ''_kind'' (GoString (Kind t))
           (setKey ''_table'' (GoString (Name t)) [])))"

text \<open>
  \<open>json.Marshal\<close>. The order in which Go ranges over a map is not specified and differs
  from run to run and from map to map: \<open>h\<close> ranks the keys of each map, and
  \<open>MapRange\<close> yields the entries of the map by rank (any order of the entries is the
  order of some \<open>h\<close>). The encoder collects the
  entries in that order, sorts them by key, and writes them; the first value that cannot
  be encoded is the error of the whole call.
\<close>

type_synonym mapOrder = "(string \<times> (goerror + string)) list \<Rightarrow> string \<Rightarrow> nat"

definition MapRange ::
  "((string \<times> 'b) list \<Rightarrow> string \<Rightarrow> nat) \<Rightarrow> (string \<times> 'b) list \<Rightarrow> (string \<times> 'b) list" where
  "MapRange h es = sort_key (\<lambda>e. h (AList.clearjunk es) (fst e)) (AList.clearjunk es)"

fun firstError :: "(goerror + string) list \<Rightarrow> goerror + string list" where
  "firstError [] = Inr []"
| "firstError (Inl e # rs) = Inl e"
| "firstError (Inr s # rs) = (case firstError rs of Inl e \<Rightarrow> Inl e | Inr ss \<Rightarrow> Inr (s # ss))"

fun commaSep :: "string list \<Rightarrow> string" where
  "commaSep [] = []"
| "commaSep [s] = s"
| "commaSep (s # t # ss) = s @ '','' @ commaSep (t # ss)"

definition encodeEntry :: "'a jsonlib \<Rightarrow> string \<times> (goerror + string) \<Rightarrow> goerror + string" where
  "encodeEntry J kr =
     (case snd kr of Inl e \<Rightarrow> Inl e | Inr s \<Rightarrow> Inr (encodeString J (fst kr) @ '':'' @ s))"

fun marshal :: "mapOrder \<Rightarrow> 'a jsonlib \<Rightarrow> 'a govalue \<Rightarrow> goerror + string" where
  "marshal h J Nil = Inr ''null''"
| "marshal h J (GoString s) = Inr (encodeString J s)"
| "marshal h J (GoInt i) = Inr (showInt i)"
| "marshal h J (Bytes b) = Inr (encodeBytes J b)"
| "marshal h J (BytesPtr None) = Inr ''null''"
| "marshal h J (BytesPtr (Some b)) = Inr (encodeBytes J b)"
| "marshal h J (Slice vs) =
     (case firstError (map (marshal h J) vs) of
        Inl e \<Rightarrow> Inl e
      | Inr ss \<Rightarrow> Inr (''['' @ commaSep ss @ '']''))"
| "marshal h J (GoMap es) =
     (let sv = sort_key fst (MapRange h (map (\<lambda>kv. (fst kv, marshal h J (snd kv))) es)) in
      case firstError (map (encodeEntry J) sv) of
        Inl e \<Rightarrow> Inl e
      | Inr ss \<Rightarrow> Inr (''{'' @ commaSep ss @ ''}''))"
| "marshal h J (Other a) = encodeOther J a"

text \<open>
  The loops of \<open>main\<close> over the rows of a table and over the tables; \<open>k\<close> is what the
  process does after the loop.
\<close>

fun rowsLoop ::
  "mapOrder \<Rightarrow> 'a jsonlib \<Rightarrow> 'a table \<Rightarrow> 'a rowResult list \<Rightarrow> event list \<Rightarrow> event list" where
  "rowsLoop h J t [] k = k"
| "rowsLoop h J t (RowErr e # rrs) k = logFatalf (''row error: '' @ Error e)"
| "rowsLoop h J t (RowOk r # rrs) k =
     (case marshal h J (GoMap (rowObject J t r)) of
        Inl err \<Rightarrow> logFatalf (''failed to marshal row as JSON: '' @ Error err)
      | Inr enc \<Rightarrow> Stdout (enc @ nl) # rowsLoop h J t rrs k)"

fun tablesLoop ::
  "mapOrder \<Rightarrow> 'a jsonlib \<Rightarrow> 'a tableResult list \<Rightarrow> event list \<Rightarrow> event list" where
  "tablesLoop h J [] k = k"
| "tablesLoop h J (TableErr e # trs) k = logFatalf (''table error: '' @ Error e)"
| "tablesLoop h J (TableOk t # trs) k = rowsLoop h J t (Rows t) (tablesLoop h J trs k)"

definition defaultQuery :: string where
  "defaultQuery =
     ''cluster('' @ [CHR 0x27] @ ''help'' @ [CHR 0x27] @ '').database('' @ [CHR 0x27]
     @ ''Samples'' @ [CHR 0x27] @ '').StormEvents | take 5''"

definition queryMode ::
  "'a world \<Rightarrow> 'a jsonlib \<Rightarrow> mapOrder \<Rightarrow> environ \<Rightarrow> event list" where
  "queryMode W J h env =
     (case getenvOrExit env ''KUSTO_CLUSTER'' ''https://<cluster>.<region>.kusto.windows.net'' of
        Inl dead \<Rightarrow> dead
      | Inr cluster \<Rightarrow>
     (case getenvOrExit env ''KUSTO_DATABASE'' ''<database>'' of
        Inl dead \<Rightarrow> dead
      | Inr database \<Rightarrow>
          (let queryText = getenv env ''KUSTO_QUERY'' defaultQuery in
           NewClient cluster #
           (case New W cluster of
              Some err \<Rightarrow> logFatalf (''failed creating Kusto client: '' @ Error err)
            | None \<Rightarrow>
                (let q = (if Getenv env ''KUSTO_QUERY'' = [] then defaultQuery else queryText);
                     ctx = 2 * 60000000000
                 in IterativeQueryCall ctx database q #
                    (case IterativeQuery W ctx database q of
                       Inl err \<Rightarrow> logFatalf (''query submission failed: '' @ Error err)
                     | Inr tables \<Rightarrow>
                         tablesLoop h J tables [CloseDataset, CloseClient, Exit 0]))))))"

definition main ::
  "stdlib \<Rightarrow> 'a world \<Rightarrow> 'a jsonlib \<Rightarrow> mapOrder \<Rightarrow> environ \<Rightarrow> string list \<Rightarrow> event list" where
  "main L W J h env Args =
     (if length Args > 1 \<and> Args ! 1 = ''probe''
      then runProbe L W env (if length Args > 2 then Args ! 2 else [])
      else if length Args > 1 \<and> Args ! 1 = ''init-sample''
      then runInitSample L W env (if length Args > 2 then Args ! 2 else [])
      else queryMode W J h env)"

section \<open>Observations on a run\<close>

text \<open>The calls to the service among the events of a run, and the bytes written to standard output.\<close>

fun isCall :: "event \<Rightarrow> bool" where
  "isCall (MgmtCall d db q) = True"
| "isCall (QueryCall d db q) = True"
| "isCall (IterativeQueryCall d db q) = True"
| "isCall ev = False"

fun stdoutBytes :: "event list \<Rightarrow> string" where
  "stdoutBytes [] = []"
| "stdoutBytes (Stdout s # evs) = s @ stdoutBytes evs"
| "stdoutBytes (ev # evs) = stdoutBytes evs"

section \<open>The numbering of rows by the SDK\<close>

text \<open>
  main.go does not number the rows: it copies \<open>row.Index()\<close> into the record. What the
  SDK's row channel of a table delivers is modelled here from the spec's words, "zero-based
  row index within its table": the results of the channel in order, each either an error or
  the values of a row, the row at position \<open>i\<close> carrying the index \<open>i\<close>. (Whether an
  error takes up a position makes no difference to main.go, which stops at the first one.)
\<close>

definition sdkRows :: "(goerror + 'a govalue option list) list \<Rightarrow> 'a rowResult list" where
  \<comment> \<open>Modelled from the spec: the SDK's numbering of the rows of a table, which is not in main.go\<close>
  "sdkRows raws =
     map (\<lambda>ix. case snd ix of
                  Inl e \<Rightarrow> RowErr e
                | Inr vals \<Rightarrow> RowOk \<lparr> Index_of = int (fst ix), Values = vals \<rparr>)
         (enumerate 0 raws)"

text \<open>
  The records for which the loop over the rows of a table prints a line, in order (the loop
  ends at the first row error and at the first record that cannot be encoded), and the
  line printed for a record.
\<close>

fun emittedRecords :: "mapOrder \<Rightarrow> 'a jsonlib \<Rightarrow> 'a table \<Rightarrow> 'a rowResult list \<Rightarrow> 'a gomap list" where
  "emittedRecords h J t [] = []"
| "emittedRecords h J t (RowErr e # rrs) = []"
| "emittedRecords h J t (RowOk r # rrs) =
     (case marshal h J (GoMap (rowObject J t r)) of
        Inl err \<Rightarrow> []
      | Inr enc \<Rightarrow> rowObject J t r # emittedRecords h J t rrs)"

definition recordLine :: "mapOrder \<Rightarrow> 'a jsonlib \<Rightarrow> 'a gomap \<Rightarrow> event" where
  "recordLine h J obj =
     Stdout ((case marshal h J (GoMap obj) of Inl err \<Rightarrow> [] | Inr enc \<Rightarrow> enc) @ nl)"

section \<open>Concrete runs\<close>

text \<open>
  A service whose answers are fixed, for the evaluations below: a healthy cluster whose
  sample table holds the expected row, and the same cluster with the management call
  timing out, with the database missing, with the sample table empty, with a table error
  in the stream, and with the iterative query refused. The values \<open>Other\<close> stands for
  are integers here.
\<close>

definition errTimeout :: goerror where
  "errTimeout = \<lparr> Error = ''dial tcp 10.0.0.1:443: i/o timeout'', isNetError = True \<rparr>"

definition errNoDatabase :: goerror where
  "errNoDatabase = \<lparr> Error = ''Database sampledb not found'', isNetError = False \<rparr>"

definition envEmpty :: environ where
  "envEmpty = (\<lambda>key. None)"

definition probeColumns :: "column list" where
  "probeColumns = [\<lparr> cname = ''Message'', ctype = ''string'' \<rparr>,
                   \<lparr> cname = ''When'', ctype = ''datetime'' \<rparr>]"

definition sampleRow :: "int row" where
  "sampleRow = \<lparr> Index_of = 0, Values = [Some (GoString ''kusto-sample-ok''), Some (Other 20260101)] \<rparr>"

definition primaryTable :: "int rowResult list \<Rightarrow> int table" where
  "primaryTable rrs =
     \<lparr> Name = ''PrimaryResult'', Kind = ''PrimaryResult'', Columns = probeColumns, Rows = rrs \<rparr>"

definition completionTable :: "int table" where
  "completionTable =
     \<lparr> Name = ''QueryCompletionInformation'', Kind = ''QueryCompletionInformation'',
       Columns = [\<lparr> cname = ''StatusCodeName'', ctype = ''string'' \<rparr>],
       Rows = [RowOk \<lparr> Index_of = 0, Values = [Some (GoString ''S_OK (0)'')] \<rparr>] \<rparr>"

definition worldHealthy :: "int world" where
  "worldHealthy =
     \<lparr> New = (\<lambda>cluster. None),
       Mgmt = (\<lambda>ctx db q. None),
       Query = (\<lambda>ctx db q. None),
       IterativeQuery = (\<lambda>ctx db q. Inr [TableOk (primaryTable [RowOk sampleRow]),
                                           TableOk completionTable]),
       Since = (\<lambda>step. 85000000) \<rparr>"

definition worldMgmtDown :: "int world" where
  "worldMgmtDown = worldHealthy \<lparr> Mgmt := (\<lambda>ctx db q. Some errTimeout) \<rparr>"

definition worldNoDatabase :: "int world" where
  "worldNoDatabase = worldHealthy \<lparr> Query := (\<lambda>ctx db q. Some errNoDatabase) \<rparr>"

definition worldEmptyTable :: "int world" where
  "worldEmptyTable =
     worldHealthy \<lparr> IterativeQuery :=
       (\<lambda>ctx db q. Inr [TableOk (primaryTable []), TableOk completionTable]) \<rparr>"

definition worldBrokenStream :: "int world" where
  "worldBrokenStream =
     worldHealthy \<lparr> IterativeQuery :=
       (\<lambda>ctx db q. Inr [TableOk completionTable, TableErr errTimeout,
                         TableOk (primaryTable [RowOk sampleRow])]) \<rparr>"

definition worldQueryRefused :: "int world" where
  "worldQueryRefused = worldHealthy \<lparr> IterativeQuery := (\<lambda>ctx db q. Inl errForbidden) \<rparr>"

text \<open>
  A JSON library for the evaluations: it parses two payloads and refuses every other,
  writes strings and byte slices between double quotes as they are, and integers in
  decimal. A table with three dynamic columns and a last column that has no value in the
  row, a table whose column is named \<open>_rowIndex\<close>, and a stream that breaks with a
  row error after its first row.
\<close>

definition jsonSample :: "int jsonlib" where
  "jsonSample =
     \<lparr> Unmarshal = (\<lambda>b. if b = ''{'' @ [CHR 0x22] @ ''b'' @ [CHR 0x22] @ '':2,'' @ [CHR 0x22]
                              @ ''a'' @ [CHR 0x22] @ '':1}''
                          then Some (GoMap [(''b'', Other 2), (''a'', Other 1)])
                          else if b = ''null'' then Some Nil
                          else None),
       encodeString = (\<lambda>s. [CHR 0x22] @ s @ [CHR 0x22]),
       encodeBytes = (\<lambda>b. [CHR 0x22] @ b @ [CHR 0x22]),
       encodeOther = (\<lambda>i. Inr (showInt i)) \<rparr>"

definition eventsRow :: "int row" where
  "eventsRow =
     \<lparr> Index_of = 0,
       Values = [Some (Other 7),
                 Some (BytesPtr (Some (''{'' @ [CHR 0x22] @ ''b'' @ [CHR 0x22] @ '':2,'' @ [CHR 0x22]
                                       @ ''a'' @ [CHR 0x22] @ '':1}''))),
                 Some (Bytes ''{oops''),
                 Some (BytesPtr None)] \<rparr>"

definition eventsTable :: "int table" where
  "eventsTable =
     \<lparr> Name = ''PrimaryResult'', Kind = ''PrimaryResult'',
       Columns = [\<lparr> cname = ''Id'', ctype = ''long'' \<rparr>,
                  \<lparr> cname = ''Props'', ctype = ''dynamic'' \<rparr>,
                  \<lparr> cname = ''Raw'', ctype = ''dynamic'' \<rparr>,
                  \<lparr> cname = ''Gone'', ctype = ''dynamic'' \<rparr>,
                  \<lparr> cname = ''Late'', ctype = ''string'' \<rparr>],
       Rows = [RowOk eventsRow] \<rparr>"

definition collisionTable :: "int table" where
  "collisionTable =
     \<lparr> Name = ''PrimaryResult'', Kind = ''PrimaryResult'',
       Columns = [\<lparr> cname = ''_rowIndex'', ctype = ''long'' \<rparr>],
       Rows = sdkRows [Inr [Some (Other 7)], Inr [Some (Other 3)]] \<rparr>"

definition envQuery :: environ where
  "envQuery = [''KUSTO_CLUSTER'' \<mapsto> ''https://demo.eastus.kusto.windows.net'',
               ''KUSTO_DATABASE'' \<mapsto> ''sampledb'',
               ''KUSTO_QUERY'' \<mapsto> ''datatable(_rowIndex:long)[7, 3]'']"

definition worldEvents :: "int world" where
  "worldEvents = worldHealthy \<lparr> IterativeQuery := (\<lambda>ctx db q. Inr [TableOk eventsTable]) \<rparr>"

definition worldCollision :: "int world" where
  "worldCollision = worldHealthy \<lparr> IterativeQuery := (\<lambda>ctx db q. Inr [TableOk collisionTable]) \<rparr>"

definition worldRowError :: "int world" where
  "worldRowError =
     worldHealthy \<lparr> IterativeQuery :=
       (\<lambda>ctx db q. Inr [TableOk (primaryTable [RowOk sampleRow, RowErr errTimeout])]) \<rparr>"

text \<open>
  A map order for the evaluations; a table with two columns of one name; a table whose
  dynamic cell is a byte slice of length 0 (the nil slice and the empty one are the same
  to the type assertion, to \<open>json.Unmarshal\<close>, which refuses both, and to the conversion
  to a string); two rows of the sample table as the SDK numbers them; and an environment
  whose expected marker is a backslash followed by a single quote.
\<close>

definition keyOrder :: mapOrder where
  "keyOrder es k = length k"




definition twoRows :: "(goerror + int govalue option list) list" where
  "twoRows = [Inr [Some (GoString ''first''), Some (Other 1)],
              Inr [Some (GoString ''second''), Some (Other 2)]]"

definition envBackslash :: environ where
  "envBackslash = [''KUSTO_PROBE_EXPECT_MESSAGE'' \<mapsto> [CHR 0x5C, CHR 0x27]]"

section \<open>The search behind \<open>strings.Contains\<close>\<close>

lemma hasPrefix_iff_prefix: "hasPrefix s p \<longleftrightarrow> prefix p s"
  unfolding hasPrefix_def
proof
  assume "length p \<le> length s \<and> take (length p) s = p"
  then have "s = p @ drop (length p) s"
    by (metis append_take_drop_id)
  then show "prefix p s"
    by (metis prefixI)
next
  assume "prefix p s"
  then obtain r where "s = p @ r"
    by (auto simp: prefix_def)
  then show "length p \<le> length s \<and> take (length p) s = p"
    by simp
qed

lemma Index_lower_bound: "- 1 \<le> Index s sub"
  by (induction s) (auto simp: Let_def)

lemma Contains_Nil: "Contains [] sub \<longleftrightarrow> sub = []"
  by (simp add: Contains_def)

lemma Contains_Cons:
  "Contains (c # cs) sub \<longleftrightarrow> prefix sub (c # cs) \<or> Contains cs sub"
  using Index_lower_bound [of cs sub]
  by (auto simp: Contains_def Let_def hasPrefix_iff_prefix)

lemma Contains_iff_sublist: "Contains s sub \<longleftrightarrow> sublist sub s"
proof (induction s)
  case Nil
  show ?case by (simp add: Contains_Nil)
next
  case (Cons c cs)
  show ?case
    by (simp only: Contains_Cons Cons.IH sublist_Cons_right)
qed

section \<open>Classification by the lower-cased text\<close>

text \<open>
  C6. Error classification depends on the error only through its lower-cased text. An
  error is a permission error exactly when the lower-cased text has one of
  \<open>forbidden\<close>, \<open>403\<close>, \<open>insufficient\<close>, \<open>permission\<close> as a contiguous part, and a
  table-not-found error exactly when it has \<open>semantic\<close>, one of \<open>table\<close> and
  \<open>name\<close>, and \<open>not\<close>. Two errors with the same lower-cased text are classified alike.
\<close>

theorem classification_by_lowered_text:
  "(isPermissionErr L err \<longleftrightarrow>
      sublist ''forbidden'' (ToLower L (Error err)) \<or> sublist ''403'' (ToLower L (Error err))
      \<or> sublist ''insufficient'' (ToLower L (Error err))
      \<or> sublist ''permission'' (ToLower L (Error err)))
   \<and> (isTableNotFound L err \<longleftrightarrow>
      sublist ''semantic'' (ToLower L (Error err))
      \<and> (sublist ''table'' (ToLower L (Error err)) \<or> sublist ''name'' (ToLower L (Error err)))
      \<and> sublist ''not'' (ToLower L (Error err)))
   \<and> (ToLower L (Error err) = ToLower L (Error err') \<longrightarrow>
        isPermissionErr L err = isPermissionErr L err'
        \<and> isTableNotFound L err = isTableNotFound L err')"
  by (simp add: isPermissionErr_def isTableNotFound_def Let_def Contains_iff_sublist)

theorem classification_by_lowered_text_witness:
  "ToLower asciiLib (Error errForbidden) = ''request forbidden (403)''
   \<and> ToLower asciiLib (Error (errForbidden\<lparr>isNetError := True\<rparr>)) = ''request forbidden (403)''
   \<and> isPermissionErr asciiLib errForbidden
   \<and> isPermissionErr asciiLib (errForbidden\<lparr>isNetError := True\<rparr>)
   \<and> \<not> isTableNotFound asciiLib errForbidden
   \<and> isTableNotFound asciiLib errNoTable
   \<and> sublist ''semantic'' (ToLower asciiLib (Error errNoTable))"
proof -
  have low: "ToLower asciiLib (Error errForbidden) = ''request forbidden (403)''"
    by code_simp
  have low': "ToLower asciiLib (Error (errForbidden\<lparr>isNetError := True\<rparr>))
                = ToLower asciiLib (Error errForbidden)"
    by simp
  have perm: "isPermissionErr asciiLib errForbidden"
    by code_simp
  have nt: "\<not> isTableNotFound asciiLib errForbidden"
    by code_simp
  have tnf: "isTableNotFound asciiLib errNoTable"
    by code_simp
  from classification_by_lowered_text [of asciiLib errForbidden "errForbidden\<lparr>isNetError := True\<rparr>"]
    low' perm
  have perm': "isPermissionErr asciiLib (errForbidden\<lparr>isNetError := True\<rparr>)"
    by simp
  from classification_by_lowered_text [of asciiLib errNoTable errNoTable] tnf
  have sub: "sublist ''semantic'' (ToLower asciiLib (Error errNoTable))"
    by blast
  from low low' perm perm' nt tnf sub show ?thesis
    by simp
qed

section \<open>The marker in the generated statements\<close>

lemma ReplaceAll_byte:
  "ReplaceAll s [c] new = concat (map (\<lambda>x. if x = c then new else [x]) s)"
  by (induction s) (auto simp: hasPrefix_def)

text \<open>
  For every sample table and marker, both statements are the fixed text around the marker
  with each single quote of the marker written twice and every other byte as it is.
\<close>

lemma quotes_doubled:
  "sampleQuery t m =
     t @ '' | where Message == '' @ [CHR 0x27]
     @ concat (map (\<lambda>c. if c = CHR 0x27 then [CHR 0x27, CHR 0x27] else [c]) m)
     @ [CHR 0x27] @ '' | take 1''"
  "appendCommand t m =
     ''.set-or-append '' @ t @ '' <| print Message='' @ [CHR 0x27]
     @ concat (map (\<lambda>c. if c = CHR 0x27 then [CHR 0x27, CHR 0x27] else [c]) m)
     @ [CHR 0x27] @ '', When=now()''"
  by (simp_all add: sampleQuery_def appendCommand_def ReplaceAll_byte)

text \<open>
  The initializer sends the append command of the configured table and marker as its
  second management command, once the client exists and the table was created or merged.
\<close>

lemma calls_runInitSample:
  "resolveClusterURL L env a = Inr cluster \<Longrightarrow> New W cluster = None \<Longrightarrow>
   Mgmt W 30000000000 (getenv env ''KUSTO_DATABASE'' ''sampledb'')
     (''.create-merge table '' @ getenv env ''KUSTO_SAMPLE_TABLE'' ''ProbeTest''
      @ '' (Message:string, When:datetime)'') = None \<Longrightarrow>
   filter isCall (runInitSample L W env a) =
     [MgmtCall 30000000000 (getenv env ''KUSTO_DATABASE'' ''sampledb'')
        (''.create-merge table '' @ getenv env ''KUSTO_SAMPLE_TABLE'' ''ProbeTest''
         @ '' (Message:string, When:datetime)''),
      MgmtCall 30000000000 (getenv env ''KUSTO_DATABASE'' ''sampledb'')
        (appendCommand (getenv env ''KUSTO_SAMPLE_TABLE'' ''ProbeTest'')
           (getenv env ''KUSTO_PROBE_EXPECT_MESSAGE'' ''kusto-sample-ok''))]"
  by (simp add: runInitSample_def Let_def logFatalf_def split: option.splits)

text \<open>
  C3 fails on the code. The expected marker is taken from the environment and only its
  single quotes are doubled. With the marker backslash, quote, the probe's third call and
  the initializer's second command carry, between the quotes the program writes, the three
  bytes backslash, quote, quote. In the query language a backslash inside a quoted literal
  escapes the byte after it, so the first of the doubled quotes is text, the second ends
  the literal, and the closing quote of the program opens a literal that has no end.
\<close>

theorem backslash_marker_statements:
  "getenv envBackslash ''KUSTO_PROBE_EXPECT_MESSAGE'' ''kusto-sample-ok'' = [CHR 0x5C, CHR 0x27]
   \<and> filter isCall (runProbe asciiLib worldHealthy envBackslash ''demo'') =
       [MgmtCall 3000000000 [] ''.show version'',
        QueryCall 3000000000 ''sampledb'' ''print 1'',
        IterativeQueryCall 3000000000 ''sampledb''
          (''ProbeTest | where Message == '' @ [CHR 0x27, CHR 0x5C, CHR 0x27, CHR 0x27, CHR 0x27]
           @ '' | take 1'')]
   \<and> filter isCall (runInitSample asciiLib worldHealthy envBackslash ''demo'') =
       [MgmtCall 30000000000 ''sampledb''
          ''.create-merge table ProbeTest (Message:string, When:datetime)'',
        MgmtCall 30000000000 ''sampledb''
          (''.set-or-append ProbeTest <| print Message='' @ [CHR 0x27, CHR 0x5C, CHR 0x27, CHR 0x27, CHR 0x27]
           @ '', When=now()'')]"
  by code_simp

section \<open>The order of the probe's steps\<close>

lemma calls_failTimed: "filter isCall (failTimed s d m e sg) = []"
  by (simp add: failTimed_def)
lemma last_failTimed: "last (failTimed s d m e sg) = Exit 1"
  by (simp add: failTimed_def)
lemma calls_okTimed: "filter isCall (okTimed s d m) = []"
  by (simp add: okTimed_def)
lemma failTimed_nonempty: "failTimed s d m e sg \<noteq> []"
  by (simp add: failTimed_def)

lemma calls_probeSample:
  "filter isCall (probeSample L W T db st em) = [IterativeQueryCall T db (sampleQuery st em)]"
  by (simp add: probeSample_def queryHasAnyRow_def Let_def calls_failTimed calls_okTimed
      split: sum.splits option.splits prod.splits)

lemma last_probeSample:
  "last (probeSample L W T db st em) =
     Exit (if snd (queryHasAnyRow W T db (sampleQuery st em)) = (True, None) then 0 else 1)"
  by (auto simp add: probeSample_def Let_def last_failTimed failTimed_nonempty
      split: sum.splits option.splits prod.splits)

lemma probeSample_nonempty: "probeSample L W T db st em \<noteq> []"
  by (auto simp add: probeSample_def Let_def queryHasAnyRow_def
      split: sum.splits option.splits prod.splits)

lemma calls_probeDatabase:
  "filter isCall (probeDatabase L W T db st em) =
     QueryCall T db ''print 1'' #
     (case Query W T db ''print 1'' of Some e \<Rightarrow> []
      | None \<Rightarrow> [IterativeQueryCall T db (sampleQuery st em)])"
  by (simp add: probeDatabase_def calls_failTimed calls_okTimed calls_probeSample
      split: option.splits)

lemma last_probeDatabase:
  "last (probeDatabase L W T db st em) =
     (case Query W T db ''print 1'' of Some e \<Rightarrow> Exit 1
      | None \<Rightarrow> last (probeSample L W T db st em))"
  by (simp add: probeDatabase_def last_failTimed failTimed_nonempty probeSample_nonempty
      split: option.splits)

lemma probeDatabase_nonempty: "probeDatabase L W T db st em \<noteq> []"
  by (simp add: probeDatabase_def)

lemma calls_probeMgmt:
  "filter isCall (probeMgmt L W T db st em) =
     MgmtCall T [] ''.show version'' #
     (case Mgmt W T [] ''.show version'' of Some e \<Rightarrow> []
      | None \<Rightarrow> filter isCall (probeDatabase L W T db st em))"
  by (simp add: probeMgmt_def calls_failTimed calls_okTimed
      split: option.splits)

lemma last_probeMgmt:
  "last (probeMgmt L W T db st em) =
     (case Mgmt W T [] ''.show version'' of Some e \<Rightarrow> Exit 1
      | None \<Rightarrow> last (probeDatabase L W T db st em))"
  by (simp add: probeMgmt_def last_failTimed failTimed_nonempty probeDatabase_nonempty
      split: option.splits)


lemma runProbe_resolved:
  "resolveClusterURL L env a = Inr cluster \<Longrightarrow> New W cluster = None \<Longrightarrow>
   runProbe L W env a =
     NewClient cluster #
     probeMgmt L W (getDurationEnv L env ''KUSTO_PROBE_TIMEOUT'' 3000000000)
       (getenv env ''KUSTO_DATABASE'' ''sampledb'')
       (getenv env ''KUSTO_SAMPLE_TABLE'' ''ProbeTest'')
       (getenv env ''KUSTO_PROBE_EXPECT_MESSAGE'' ''kusto-sample-ok'')"
  by (simp add: runProbe_def Let_def)

lemma calls_runProbe_unresolved:
  "resolveClusterURL L env a = Inl dead \<Longrightarrow> filter isCall (runProbe L W env a) = []"
  by (auto simp: runProbe_def resolveClusterURL_def logFatalf_def Let_def split: if_splits)

lemma calls_runProbe_noclient:
  "resolveClusterURL L env a = Inr cluster \<Longrightarrow> New W cluster = Some e \<Longrightarrow>
   filter isCall (runProbe L W env a) = []"
  by (simp add: runProbe_def Let_def fail_def split: option.splits)

lemma calls_runProbe_prefix:
  "prefix (filter isCall (runProbe L W env a))
     [MgmtCall (getDurationEnv L env ''KUSTO_PROBE_TIMEOUT'' 3000000000) [] ''.show version'',
      QueryCall (getDurationEnv L env ''KUSTO_PROBE_TIMEOUT'' 3000000000)
        (getenv env ''KUSTO_DATABASE'' ''sampledb'') ''print 1'',
      IterativeQueryCall (getDurationEnv L env ''KUSTO_PROBE_TIMEOUT'' 3000000000)
        (getenv env ''KUSTO_DATABASE'' ''sampledb'')
        (sampleQuery (getenv env ''KUSTO_SAMPLE_TABLE'' ''ProbeTest'')
           (getenv env ''KUSTO_PROBE_EXPECT_MESSAGE'' ''kusto-sample-ok''))]"
proof (cases "resolveClusterURL L env a")
  case (Inl dead)
  then show ?thesis by (simp add: calls_runProbe_unresolved)
next
  case (Inr c)
  show ?thesis
  proof (cases "New W c")
    case None
    with Inr show ?thesis
      by (simp add: runProbe_resolved calls_probeMgmt calls_probeDatabase split: option.splits)
  next
    case (Some e)
    with Inr show ?thesis by (simp add: calls_runProbe_noclient)
  qed
qed

text \<open>
  C2. The calls a probe makes to the service are, in this order, the management command,
  the query against the database and the sample-data query, cut off after the first one
  that fails: once the client exists, a failing management call is the only call of the
  run, a failing database query is the second and last, and in each case the last event
  of the run is the exit with status 1. When both pass, the sample-data query is the
  third call, and the run exits with status 0 exactly when that query found a row without
  error, and with status 1 otherwise.
\<close>

theorem probe_stops_at_first_failure:
  "(let T = getDurationEnv L env ''KUSTO_PROBE_TIMEOUT'' 3000000000;
        db = getenv env ''KUSTO_DATABASE'' ''sampledb'';
        q = sampleQuery (getenv env ''KUSTO_SAMPLE_TABLE'' ''ProbeTest'')
              (getenv env ''KUSTO_PROBE_EXPECT_MESSAGE'' ''kusto-sample-ok'');
        steps = [MgmtCall T [] ''.show version'', QueryCall T db ''print 1'',
                 IterativeQueryCall T db q];
        run = runProbe L W env a
    in prefix (filter isCall run) steps
       \<and> (resolveClusterURL L env a = Inr cluster \<and> New W cluster = None \<longrightarrow>
            (Mgmt W T [] ''.show version'' \<noteq> None \<longrightarrow>
               filter isCall run = take 1 steps \<and> last run = Exit 1)
          \<and> (Mgmt W T [] ''.show version'' = None \<and> Query W T db ''print 1'' \<noteq> None \<longrightarrow>
               filter isCall run = take 2 steps \<and> last run = Exit 1)
          \<and> (Mgmt W T [] ''.show version'' = None \<and> Query W T db ''print 1'' = None \<longrightarrow>
               filter isCall run = steps
               \<and> last run = Exit (if snd (queryHasAnyRow W T db q) = (True, None) then 0 else 1))))"
proof -
  let ?T = "getDurationEnv L env ''KUSTO_PROBE_TIMEOUT'' 3000000000"
  let ?db = "getenv env ''KUSTO_DATABASE'' ''sampledb''"
  let ?st = "getenv env ''KUSTO_SAMPLE_TABLE'' ''ProbeTest''"
  let ?em = "getenv env ''KUSTO_PROBE_EXPECT_MESSAGE'' ''kusto-sample-ok''"
  let ?steps = "[MgmtCall ?T [] ''.show version'', QueryCall ?T ?db ''print 1'',
                 IterativeQueryCall ?T ?db (sampleQuery ?st ?em)]"
  let ?run = "runProbe L W env a"
  have pre: "prefix (filter isCall ?run) ?steps"
    by (rule calls_runProbe_prefix)
  have rest: "resolveClusterURL L env a = Inr cluster \<and> New W cluster = None \<longrightarrow>
            (Mgmt W ?T [] ''.show version'' \<noteq> None \<longrightarrow>
               filter isCall ?run = take 1 ?steps \<and> last ?run = Exit 1)
          \<and> (Mgmt W ?T [] ''.show version'' = None \<and> Query W ?T ?db ''print 1'' \<noteq> None \<longrightarrow>
               filter isCall ?run = take 2 ?steps \<and> last ?run = Exit 1)
          \<and> (Mgmt W ?T [] ''.show version'' = None \<and> Query W ?T ?db ''print 1'' = None \<longrightarrow>
               filter isCall ?run = ?steps
               \<and> last ?run = Exit (if snd (queryHasAnyRow W ?T ?db (sampleQuery ?st ?em)) = (True, None) then 0 else 1))"
  proof (intro impI)
    assume h: "resolveClusterURL L env a = Inr cluster \<and> New W cluster = None"
    have ne: "probeMgmt L W ?T ?db ?st ?em \<noteq> []" by (simp add: probeMgmt_def)
    have run: "?run = NewClient cluster # probeMgmt L W ?T ?db ?st ?em"
      using h by (simp add: runProbe_resolved)
    show "(Mgmt W ?T [] ''.show version'' \<noteq> None \<longrightarrow>
               filter isCall ?run = take 1 ?steps \<and> last ?run = Exit 1)
          \<and> (Mgmt W ?T [] ''.show version'' = None \<and> Query W ?T ?db ''print 1'' \<noteq> None \<longrightarrow>
               filter isCall ?run = take 2 ?steps \<and> last ?run = Exit 1)
          \<and> (Mgmt W ?T [] ''.show version'' = None \<and> Query W ?T ?db ''print 1'' = None \<longrightarrow>
               filter isCall ?run = ?steps
               \<and> last ?run = Exit (if snd (queryHasAnyRow W ?T ?db (sampleQuery ?st ?em)) = (True, None) then 0 else 1))"
      unfolding run
      by (auto simp add: ne calls_probeMgmt calls_probeDatabase last_probeMgmt last_probeDatabase
          last_probeSample)
  qed
  from pre rest show ?thesis
    unfolding Let_def by blast
qed


theorem probe_stops_at_first_failure_witness:
  "filter isCall (runProbe asciiLib worldMgmtDown envEmpty ''demo'')
     = [MgmtCall 3000000000 [] ''.show version'']
   \<and> last (runProbe asciiLib worldMgmtDown envEmpty ''demo'') = Exit 1
   \<and> filter isCall (runProbe asciiLib worldNoDatabase envEmpty ''demo'')
     = [MgmtCall 3000000000 [] ''.show version'', QueryCall 3000000000 ''sampledb'' ''print 1'']
   \<and> last (runProbe asciiLib worldNoDatabase envEmpty ''demo'') = Exit 1
   \<and> last (runProbe asciiLib worldEmptyTable envEmpty ''demo'') = Exit 1
   \<and> last (runProbe asciiLib worldHealthy envEmpty ''demo'') = Exit 0"
proof -
  have r: "resolveClusterURL asciiLib envEmpty ''demo'' = Inr ''https://demo.eastus.kusto.windows.net''"
    by code_simp
  have T: "getDurationEnv asciiLib envEmpty ''KUSTO_PROBE_TIMEOUT'' 3000000000 = 3000000000"
    by code_simp
  have db: "getenv envEmpty ''KUSTO_DATABASE'' ''sampledb'' = ''sampledb''"
    by code_simp
  have n1: "New worldMgmtDown ''https://demo.eastus.kusto.windows.net'' = None"
    and m1: "Mgmt worldMgmtDown 3000000000 [] ''.show version'' \<noteq> None"
    by code_simp+
  have n2: "New worldNoDatabase ''https://demo.eastus.kusto.windows.net'' = None"
    and m2: "Mgmt worldNoDatabase 3000000000 [] ''.show version'' = None"
    and q2: "Query worldNoDatabase 3000000000 ''sampledb'' ''print 1'' \<noteq> None"
    by code_simp+
  have n3: "New worldEmptyTable ''https://demo.eastus.kusto.windows.net'' = None"
    and m3: "Mgmt worldEmptyTable 3000000000 [] ''.show version'' = None"
    and q3: "Query worldEmptyTable 3000000000 ''sampledb'' ''print 1'' = None"
    and h3: "snd (queryHasAnyRow worldEmptyTable 3000000000 ''sampledb''
              (sampleQuery (getenv envEmpty ''KUSTO_SAMPLE_TABLE'' ''ProbeTest'')
                 (getenv envEmpty ''KUSTO_PROBE_EXPECT_MESSAGE'' ''kusto-sample-ok''))) = (False, None)"
    by code_simp+
  have n4: "New worldHealthy ''https://demo.eastus.kusto.windows.net'' = None"
    and m4: "Mgmt worldHealthy 3000000000 [] ''.show version'' = None"
    and q4: "Query worldHealthy 3000000000 ''sampledb'' ''print 1'' = None"
    and h4: "snd (queryHasAnyRow worldHealthy 3000000000 ''sampledb''
              (sampleQuery (getenv envEmpty ''KUSTO_SAMPLE_TABLE'' ''ProbeTest'')
                 (getenv envEmpty ''KUSTO_PROBE_EXPECT_MESSAGE'' ''kusto-sample-ok''))) = (True, None)"
    by code_simp+
  from probe_stops_at_first_failure
    [of asciiLib envEmpty worldMgmtDown "''demo''" "''https://demo.eastus.kusto.windows.net''"]
    r n1 m1
  have a: "filter isCall (runProbe asciiLib worldMgmtDown envEmpty ''demo'')
             = [MgmtCall 3000000000 [] ''.show version'']
           \<and> last (runProbe asciiLib worldMgmtDown envEmpty ''demo'') = Exit 1"
    by (simp add: Let_def T)
  from probe_stops_at_first_failure
    [of asciiLib envEmpty worldNoDatabase "''demo''" "''https://demo.eastus.kusto.windows.net''"]
    r n2 m2 q2
  have b: "filter isCall (runProbe asciiLib worldNoDatabase envEmpty ''demo'')
     = [MgmtCall 3000000000 [] ''.show version'', QueryCall 3000000000 ''sampledb'' ''print 1'']
   \<and> last (runProbe asciiLib worldNoDatabase envEmpty ''demo'') = Exit 1"
    by (simp add: Let_def T db)
  from probe_stops_at_first_failure
    [of asciiLib envEmpty worldEmptyTable "''demo''" "''https://demo.eastus.kusto.windows.net''"]
    r n3 m3 q3 h3
  have c: "last (runProbe asciiLib worldEmptyTable envEmpty ''demo'') = Exit 1"
    by (simp add: Let_def T db)
  from probe_stops_at_first_failure
    [of asciiLib envEmpty worldHealthy "''demo''" "''https://demo.eastus.kusto.windows.net''"]
    r n4 m4 q4 h4
  have d: "last (runProbe asciiLib worldHealthy envEmpty ''demo'') = Exit 0"
    by (simp add: Let_def T db)
  from a b c d show ?thesis by simp
qed

section \<open>The sample-data step\<close>

lemma hasAnyRow_none_iff:
  "hasAnyRow trs = (False, None) \<longleftrightarrow>
     (\<forall>tr \<in> set trs. \<exists>t. tr = TableOk t \<and> (Name t = ''PrimaryResult'' \<longrightarrow> Rows t = []))"
  by (induction trs rule: hasAnyRow.induct) (auto split: list.splits rowResult.splits)

lemma hasAnyRow_skip:
  "\<forall>tr \<in> set pre. \<exists>t. tr = TableOk t \<and> (Name t = ''PrimaryResult'' \<longrightarrow> Rows t = []) \<Longrightarrow>
   hasAnyRow (pre @ rest) = hasAnyRow rest"
  by (induction pre rule: hasAnyRow.induct) (auto split: list.splits rowResult.splits)

lemma hasAnyRow_other_table:
  "Name t \<noteq> ''PrimaryResult'' \<Longrightarrow> hasAnyRow (pre @ TableOk t # post) = hasAnyRow (pre @ post)"
  by (induction pre rule: hasAnyRow.induct) (auto split: list.splits rowResult.splits)

lemma hasAnyRow_decided:
  "hasAnyRow trs = (b, err) \<Longrightarrow> (b, err) \<noteq> (False, None) \<Longrightarrow>
   \<exists>pre x post. trs = pre @ x # post
     \<and> (\<forall>tr \<in> set pre. \<exists>t. tr = TableOk t \<and> (Name t = ''PrimaryResult'' \<longrightarrow> Rows t = []))
     \<and> ((\<exists>e. x = TableErr e \<and> b = False \<and> err = Some e)
        \<or> (\<exists>t e rrs. x = TableOk t \<and> Name t = ''PrimaryResult'' \<and> Rows t = RowErr e # rrs
              \<and> b = False \<and> err = Some e)
        \<or> (\<exists>t r rrs. x = TableOk t \<and> Name t = ''PrimaryResult'' \<and> Rows t = RowOk r # rrs
              \<and> b = True \<and> err = None))"
proof (induction trs rule: hasAnyRow.induct)
  case 1
  then show ?case by simp
next
  case (2 e trs)
  then have "TableErr e # trs = [] @ TableErr e # trs \<and> b = False \<and> err = Some e" by simp
  then show ?case by (metis empty_iff list.set(1))
next
  case (3 t trs)
  show ?case
  proof (cases "Name t = ''PrimaryResult'' \<and> Rows t \<noteq> []")
    case True
    then obtain rr rrs where rows: "Rows t = rr # rrs" by (cases "Rows t") auto
    show ?thesis
    proof (cases rr)
      case (RowErr e)
      with True rows 3 have "TableOk t # trs = [] @ TableOk t # trs \<and> Name t = ''PrimaryResult''
          \<and> Rows t = RowErr e # rrs \<and> b = False \<and> err = Some e" by simp
      then show ?thesis by (metis empty_iff list.set(1))
    next
      case (RowOk r)
      with True rows 3 have "TableOk t # trs = [] @ TableOk t # trs \<and> Name t = ''PrimaryResult''
          \<and> Rows t = RowOk r # rrs \<and> b = True \<and> err = None" by simp
      then show ?thesis by (metis empty_iff list.set(1))
    qed
  next
    case False
    then have "hasAnyRow (TableOk t # trs) = hasAnyRow trs" by auto
    with 3 False have "\<exists>pre x post. trs = pre @ x # post
     \<and> (\<forall>tr \<in> set pre. \<exists>t. tr = TableOk t \<and> (Name t = ''PrimaryResult'' \<longrightarrow> Rows t = []))
     \<and> ((\<exists>e. x = TableErr e \<and> b = False \<and> err = Some e)
        \<or> (\<exists>t e rrs. x = TableOk t \<and> Name t = ''PrimaryResult'' \<and> Rows t = RowErr e # rrs
              \<and> b = False \<and> err = Some e)
        \<or> (\<exists>t r rrs. x = TableOk t \<and> Name t = ''PrimaryResult'' \<and> Rows t = RowOk r # rrs
              \<and> b = True \<and> err = None))"
      by (cases "Name t = ''PrimaryResult''") auto
    then obtain pre x post where p: "trs = pre @ x # post"
      and q: "\<forall>tr \<in> set pre. \<exists>t. tr = TableOk t \<and> (Name t = ''PrimaryResult'' \<longrightarrow> Rows t = [])"
      and d: "(\<exists>e. x = TableErr e \<and> b = False \<and> err = Some e)
        \<or> (\<exists>t e rrs. x = TableOk t \<and> Name t = ''PrimaryResult'' \<and> Rows t = RowErr e # rrs
              \<and> b = False \<and> err = Some e)
        \<or> (\<exists>t r rrs. x = TableOk t \<and> Name t = ''PrimaryResult'' \<and> Rows t = RowOk r # rrs
              \<and> b = True \<and> err = None)"
      by blast
    from p have p': "TableOk t # trs = (TableOk t # pre) @ x # post" by simp
    from q False have q': "\<forall>tr \<in> set (TableOk t # pre).
        \<exists>t. tr = TableOk t \<and> (Name t = ''PrimaryResult'' \<longrightarrow> Rows t = [])" by auto
    from p' q' d show ?thesis by blast
  qed
qed

text \<open>
  C10. \<open>queryHasAnyRow\<close> returns true and no error exactly when the stream holds a table
  named \<open>PrimaryResult\<close> whose first row result is a row, and everything the stream
  delivered before that table is a table without error that either has another name or
  is a \<open>PrimaryResult\<close> with no rows. A table of another name changes nothing, whatever
  its rows are: the result with it and without it is the same. When the first thing that is
  not such a passed-over table is a table error, or a \<open>PrimaryResult\<close> whose first row
  result is an error, that error is returned with result false; so is the error of a
  refused query.
\<close>

theorem queryHasAnyRow_primary_result:
  "(snd (queryHasAnyRow W ctx db q) = (True, None) \<longleftrightarrow>
      (\<exists>pre t r rrs post.
          IterativeQuery W ctx db q = Inr (pre @ TableOk t # post)
        \<and> (\<forall>tr \<in> set pre. \<exists>t'. tr = TableOk t' \<and> (Name t' = ''PrimaryResult'' \<longrightarrow> Rows t' = []))
        \<and> Name t = ''PrimaryResult'' \<and> Rows t = RowOk r # rrs))
   \<and> (IterativeQuery W ctx db q = Inr (pre @ TableOk t # post) \<and> Name t \<noteq> ''PrimaryResult''
        \<and> IterativeQuery W' ctx db q = Inr (pre @ post) \<longrightarrow>
        snd (queryHasAnyRow W ctx db q) = snd (queryHasAnyRow W' ctx db q))
   \<and> (IterativeQuery W ctx db q = Inr (pre @ x # post)
        \<and> (\<forall>tr \<in> set pre. \<exists>t'. tr = TableOk t' \<and> (Name t' = ''PrimaryResult'' \<longrightarrow> Rows t' = []))
        \<and> (x = TableErr e \<or> (\<exists>t rrs. x = TableOk t \<and> Name t = ''PrimaryResult''
                                     \<and> Rows t = RowErr e # rrs)) \<longrightarrow>
        snd (queryHasAnyRow W ctx db q) = (False, Some e))
   \<and> (IterativeQuery W ctx db q = Inl e \<longrightarrow> snd (queryHasAnyRow W ctx db q) = (False, Some e))"
proof (intro conjI impI)
  show "snd (queryHasAnyRow W ctx db q) = (True, None) \<longleftrightarrow>
      (\<exists>pre t r rrs post.
          IterativeQuery W ctx db q = Inr (pre @ TableOk t # post)
        \<and> (\<forall>tr \<in> set pre. \<exists>t'. tr = TableOk t' \<and> (Name t' = ''PrimaryResult'' \<longrightarrow> Rows t' = []))
        \<and> Name t = ''PrimaryResult'' \<and> Rows t = RowOk r # rrs)"
  proof
    assume a: "snd (queryHasAnyRow W ctx db q) = (True, None)"
    then obtain trs where trs: "IterativeQuery W ctx db q = Inr trs"
      by (cases "IterativeQuery W ctx db q") (auto simp: queryHasAnyRow_def)
    with a have "hasAnyRow trs = (True, None)"
      by (simp add: queryHasAnyRow_def)
    from hasAnyRow_decided [OF this] trs
    show "\<exists>pre t r rrs post.
          IterativeQuery W ctx db q = Inr (pre @ TableOk t # post)
        \<and> (\<forall>tr \<in> set pre. \<exists>t'. tr = TableOk t' \<and> (Name t' = ''PrimaryResult'' \<longrightarrow> Rows t' = []))
        \<and> Name t = ''PrimaryResult'' \<and> Rows t = RowOk r # rrs"
      by auto
  next
    assume "\<exists>pre t r rrs post.
          IterativeQuery W ctx db q = Inr (pre @ TableOk t # post)
        \<and> (\<forall>tr \<in> set pre. \<exists>t'. tr = TableOk t' \<and> (Name t' = ''PrimaryResult'' \<longrightarrow> Rows t' = []))
        \<and> Name t = ''PrimaryResult'' \<and> Rows t = RowOk r # rrs"
    then obtain pre t r rrs post where
      i: "IterativeQuery W ctx db q = Inr (pre @ TableOk t # post)"
      and p: "\<forall>tr \<in> set pre. \<exists>t'. tr = TableOk t' \<and> (Name t' = ''PrimaryResult'' \<longrightarrow> Rows t' = [])"
      and n: "Name t = ''PrimaryResult''" and r: "Rows t = RowOk r # rrs"
      by blast
    from n r have "hasAnyRow (pre @ TableOk t # post) = (True, None)"
      by (simp add: hasAnyRow_skip [OF p])
    with i show "snd (queryHasAnyRow W ctx db q) = (True, None)"
      by (simp add: queryHasAnyRow_def)
  qed
next
  assume "IterativeQuery W ctx db q = Inr (pre @ TableOk t # post) \<and> Name t \<noteq> ''PrimaryResult''
        \<and> IterativeQuery W' ctx db q = Inr (pre @ post)"
  then show "snd (queryHasAnyRow W ctx db q) = snd (queryHasAnyRow W' ctx db q)"
    by (simp add: queryHasAnyRow_def hasAnyRow_other_table)
next
  assume a: "IterativeQuery W ctx db q = Inr (pre @ x # post)
        \<and> (\<forall>tr \<in> set pre. \<exists>t'. tr = TableOk t' \<and> (Name t' = ''PrimaryResult'' \<longrightarrow> Rows t' = []))
        \<and> (x = TableErr e \<or> (\<exists>t rrs. x = TableOk t \<and> Name t = ''PrimaryResult''
                                     \<and> Rows t = RowErr e # rrs))"
  then have p: "\<forall>tr \<in> set pre. \<exists>t'. tr = TableOk t' \<and> (Name t' = ''PrimaryResult'' \<longrightarrow> Rows t' = [])"
    by blast
  from a have "hasAnyRow (x # post) = (False, Some e)"
    by auto
  with a show "snd (queryHasAnyRow W ctx db q) = (False, Some e)"
    by (simp add: queryHasAnyRow_def hasAnyRow_skip [OF p])
next
  assume "IterativeQuery W ctx db q = Inl e"
  then show "snd (queryHasAnyRow W ctx db q) = (False, Some e)"
    by (simp add: queryHasAnyRow_def)
qed

theorem queryHasAnyRow_primary_result_witness:
  "snd (queryHasAnyRow worldHealthy 3000000000 ''sampledb'' ''ProbeTest | take 1'') = (True, None)
   \<and> snd (queryHasAnyRow worldBrokenStream 3000000000 ''sampledb'' ''ProbeTest | take 1'')
       = (False, Some errTimeout)
   \<and> snd (queryHasAnyRow worldQueryRefused 3000000000 ''sampledb'' ''ProbeTest | take 1'')
       = (False, Some errForbidden)"
proof -
  let ?q = "''ProbeTest | take 1''"
  have i1: "IterativeQuery worldHealthy 3000000000 ''sampledb'' ?q
              = Inr ([] @ TableOk (primaryTable [RowOk sampleRow]) # [TableOk completionTable])"
    by (simp add: worldHealthy_def)
  have n1: "Name (primaryTable [RowOk sampleRow]) = ''PrimaryResult''"
    and r1: "Rows (primaryTable [RowOk sampleRow]) = RowOk sampleRow # []"
    by (simp_all add: primaryTable_def)
  have ex: "\<exists>pre t r rrs post.
          IterativeQuery worldHealthy 3000000000 ''sampledb'' ?q = Inr (pre @ TableOk t # post)
        \<and> (\<forall>tr \<in> set pre. \<exists>t'. tr = TableOk t' \<and> (Name t' = ''PrimaryResult'' \<longrightarrow> Rows t' = []))
        \<and> Name t = ''PrimaryResult'' \<and> Rows t = RowOk r # rrs"
    using i1 n1 r1 by (metis empty_iff list.set(1))
  from queryHasAnyRow_primary_result
         [of worldHealthy 3000000000 "''sampledb''" ?q] ex
  have a: "snd (queryHasAnyRow worldHealthy 3000000000 ''sampledb'' ?q) = (True, None)"
    by blast
  have i2: "IterativeQuery worldBrokenStream 3000000000 ''sampledb'' ?q
              = Inr ([TableOk completionTable] @ TableErr errTimeout
                     # [TableOk (primaryTable [RowOk sampleRow])])"
    by (simp add: worldBrokenStream_def worldHealthy_def)
  have p2: "\<forall>tr \<in> set [TableOk completionTable].
              \<exists>t'. tr = TableOk t' \<and> (Name t' = ''PrimaryResult'' \<longrightarrow> Rows t' = [])"
    by (simp add: completionTable_def)
  from queryHasAnyRow_primary_result
         [of worldBrokenStream 3000000000 "''sampledb''" ?q "[TableOk completionTable]" _ _ _
            "TableErr errTimeout" errTimeout]
       i2 p2
  have b: "snd (queryHasAnyRow worldBrokenStream 3000000000 ''sampledb'' ?q) = (False, Some errTimeout)"
    by blast
  have i3: "IterativeQuery worldQueryRefused 3000000000 ''sampledb'' ?q = Inl errForbidden"
    by (simp add: worldQueryRefused_def worldHealthy_def)
  from queryHasAnyRow_primary_result
         [of worldQueryRefused 3000000000 "''sampledb''" ?q _ _ _ _ _ errForbidden] i3
  have c: "snd (queryHasAnyRow worldQueryRefused 3000000000 ''sampledb'' ?q) = (False, Some errForbidden)"
    by blast
  from a b c show ?thesis by simp
qed

text \<open>
  C4. In step 3, when the sample-data query is accepted and its stream ends without any
  error and without a row of a \<open>PrimaryResult\<close> table, the probe closes the dataset and
  fails through \<open>failTimed\<close> with no error (printed as \<open><nil>\<close>) and the message
  that the expected row was not found, then exits with status 1. When the query itself is
  refused, the failure carries that error, its message is one of the three messages about
  the table or the query and never the message about the row, and the exit status is 1 as
  well.
\<close>

theorem zero_rows_reported_as_missing_row:
  "(IterativeQuery W T db (sampleQuery st em) = Inr trs
      \<and> (\<forall>tr \<in> set trs. \<exists>t. tr = TableOk t \<and> (Name t = ''PrimaryResult'' \<longrightarrow> Rows t = [])) \<longrightarrow>
      probeSample L W T db st em =
        [IterativeQueryCall T db (sampleQuery st em), CloseDataset]
        @ failTimed ''data-sample'' (Since W ''data-sample'')
            (''expected row not found in '' @ st @ '' (Message=='' @ [CHR 0x27] @ em @ [CHR 0x27] @ '')'')
            None ''Initialize sample data via kusto.sh or verify ingestion.''
    \<and> probeSample L W T db st em =
        [IterativeQueryCall T db (sampleQuery st em), CloseDataset,
         Stdout (''FAIL data-sample ('' @ showInt (Milliseconds (Since W ''data-sample''))
                 @ ''ms): expected row not found in '' @ st @ '' (Message=='' @ [CHR 0x27] @ em
                 @ [CHR 0x27] @ ''): <nil>'' @ nl),
         Stdout (''SUGGEST data-sample: Initialize sample data via kusto.sh or verify ingestion.'' @ nl),
         Exit 1])
   \<and> (IterativeQuery W T db (sampleQuery st em) = Inl e \<longrightarrow>
        (\<exists>msg suggest. probeSample L W T db st em =
           IterativeQueryCall T db (sampleQuery st em)
           # failTimed ''data-sample'' (Since W ''data-sample'') msg (Some e) suggest
         \<and> (msg = ''sample table not found: '' @ st
              \<or> msg = ''no access to sample table: '' @ st
              \<or> msg = ''query failed for sample table'')
         \<and> msg \<noteq> ''expected row not found in '' @ st @ '' (Message=='' @ [CHR 0x27] @ em
                     @ [CHR 0x27] @ '')'')
        \<and> last (probeSample L W T db st em) = Exit 1)"
proof (intro conjI impI)
  assume a: "IterativeQuery W T db (sampleQuery st em) = Inr trs
      \<and> (\<forall>tr \<in> set trs. \<exists>t. tr = TableOk t \<and> (Name t = ''PrimaryResult'' \<longrightarrow> Rows t = []))"
  then have h: "hasAnyRow trs = (False, None)"
    by (simp add: hasAnyRow_none_iff)
  with a show f: "probeSample L W T db st em =
        [IterativeQueryCall T db (sampleQuery st em), CloseDataset]
        @ failTimed ''data-sample'' (Since W ''data-sample'')
            (''expected row not found in '' @ st @ '' (Message=='' @ [CHR 0x27] @ em @ [CHR 0x27] @ '')'')
            None ''Initialize sample data via kusto.sh or verify ingestion.''"
    by (simp add: probeSample_def queryHasAnyRow_def Let_def)
  show "probeSample L W T db st em =
        [IterativeQueryCall T db (sampleQuery st em), CloseDataset,
         Stdout (''FAIL data-sample ('' @ showInt (Milliseconds (Since W ''data-sample''))
                 @ ''ms): expected row not found in '' @ st @ '' (Message=='' @ [CHR 0x27] @ em
                 @ [CHR 0x27] @ ''): <nil>'' @ nl),
         Stdout (''SUGGEST data-sample: Initialize sample data via kusto.sh or verify ingestion.'' @ nl),
         Exit 1]"
    unfolding f by (simp add: failTimed_def showErr_def)
next
  assume a: "IterativeQuery W T db (sampleQuery st em) = Inl e"
  show "\<exists>msg suggest. probeSample L W T db st em =
           IterativeQueryCall T db (sampleQuery st em)
           # failTimed ''data-sample'' (Since W ''data-sample'') msg (Some e) suggest
         \<and> (msg = ''sample table not found: '' @ st
              \<or> msg = ''no access to sample table: '' @ st
              \<or> msg = ''query failed for sample table'')
         \<and> msg \<noteq> ''expected row not found in '' @ st @ '' (Message=='' @ [CHR 0x27] @ em
                     @ [CHR 0x27] @ '')''"
  proof -
    let ?msg = "if isTableNotFound L e then ''sample table not found: '' @ st
                else if isPermissionErr L e then ''no access to sample table: '' @ st
                else ''query failed for sample table''"
    let ?suggest = "if isTableNotFound L e
                    then ''Run kusto.sh probe or create to initialize the sample table.''
                    else if isPermissionErr L e then suggestionForPermissions
                    else suggestionForQuery st"
    have "probeSample L W T db st em =
           IterativeQueryCall T db (sampleQuery st em)
           # failTimed ''data-sample'' (Since W ''data-sample'') ?msg (Some e) ?suggest"
      by (simp add: probeSample_def queryHasAnyRow_def Let_def a)
    moreover have "?msg = ''sample table not found: '' @ st
              \<or> ?msg = ''no access to sample table: '' @ st
              \<or> ?msg = ''query failed for sample table''"
      by simp
    moreover have "?msg \<noteq> ''expected row not found in '' @ st @ '' (Message=='' @ [CHR 0x27] @ em
                     @ [CHR 0x27] @ '')''"
      by simp
    ultimately show ?thesis by blast
  qed
next
  assume a: "IterativeQuery W T db (sampleQuery st em) = Inl e"
  then show "last (probeSample L W T db st em) = Exit 1"
    by (simp add: last_probeSample queryHasAnyRow_def)
qed
theorem zero_rows_reported_as_missing_row_witness:
  "probeSample asciiLib worldEmptyTable 3000000000 ''sampledb'' ''ProbeTest'' ''kusto-sample-ok'' =
     [IterativeQueryCall 3000000000 ''sampledb''
        (''ProbeTest | where Message == '' @ [CHR 0x27] @ ''kusto-sample-ok'' @ [CHR 0x27] @ '' | take 1''),
      CloseDataset,
      Stdout (''FAIL data-sample (85ms): expected row not found in ProbeTest (Message=='' @ [CHR 0x27]
              @ ''kusto-sample-ok'' @ [CHR 0x27] @ ''): <nil>'' @ nl),
      Stdout (''SUGGEST data-sample: Initialize sample data via kusto.sh or verify ingestion.'' @ nl),
      Exit 1]
   \<and> last (probeSample asciiLib worldQueryRefused 3000000000 ''sampledb'' ''ProbeTest'' ''kusto-sample-ok'')
       = Exit 1"
proof -
  let ?trs = "[TableOk (primaryTable []), TableOk completionTable]"
  have q: "sampleQuery ''ProbeTest'' ''kusto-sample-ok'' =
        ''ProbeTest | where Message == '' @ [CHR 0x27] @ ''kusto-sample-ok'' @ [CHR 0x27] @ '' | take 1''"
    by code_simp
  have i: "IterativeQuery worldEmptyTable 3000000000 ''sampledb''
             (sampleQuery ''ProbeTest'' ''kusto-sample-ok'') = Inr ?trs"
    by (simp add: worldEmptyTable_def worldHealthy_def)
  have z: "\<forall>tr \<in> set ?trs. \<exists>t. tr = TableOk t \<and> (Name t = ''PrimaryResult'' \<longrightarrow> Rows t = [])"
    by (simp add: primaryTable_def completionTable_def)
  have ms: "showInt (Milliseconds (Since worldEmptyTable ''data-sample'')) = ''85''"
    by code_simp
  have i': "IterativeQuery worldQueryRefused 3000000000 ''sampledb''
             (sampleQuery ''ProbeTest'' ''kusto-sample-ok'') = Inl errForbidden"
    by (simp add: worldQueryRefused_def worldHealthy_def)
  from zero_rows_reported_as_missing_row
         [of worldEmptyTable 3000000000 "''sampledb''" "''ProbeTest''" "''kusto-sample-ok''" ?trs asciiLib]
       i z
  have a: "probeSample asciiLib worldEmptyTable 3000000000 ''sampledb'' ''ProbeTest'' ''kusto-sample-ok'' =
        [IterativeQueryCall 3000000000 ''sampledb'' (sampleQuery ''ProbeTest'' ''kusto-sample-ok''), CloseDataset,
         Stdout (''FAIL data-sample ('' @ showInt (Milliseconds (Since worldEmptyTable ''data-sample''))
                 @ ''ms): expected row not found in '' @ ''ProbeTest'' @ '' (Message=='' @ [CHR 0x27]
                 @ ''kusto-sample-ok'' @ [CHR 0x27] @ ''): <nil>'' @ nl),
         Stdout (''SUGGEST data-sample: Initialize sample data via kusto.sh or verify ingestion.'' @ nl),
         Exit 1]"
    by blast
  from zero_rows_reported_as_missing_row
         [of worldQueryRefused 3000000000 "''sampledb''" "''ProbeTest''" "''kusto-sample-ok''" _ asciiLib
            errForbidden]
       i'
  have b: "last (probeSample asciiLib worldQueryRefused 3000000000 ''sampledb'' ''ProbeTest'' ''kusto-sample-ok'')
       = Exit 1"
    by blast
  from a b show ?thesis
    by (simp add: q ms)
qed

text \<open>
  C8. The timeout of the probe's steps is \<open>getDurationEnv\<close> of the variable
  \<open>KUSTO_PROBE_TIMEOUT\<close> with the default of 3 seconds: 3 seconds when the trimmed value
  is empty or \<open>time.ParseDuration\<close> returns an error for it, the parsed duration
  otherwise; and every call the probe makes to the service carries that timeout.
\<close>

theorem probe_timeout_from_environment:
  "(let v = TrimSpace L (Getenv env ''KUSTO_PROBE_TIMEOUT'');
        T = getDurationEnv L env ''KUSTO_PROBE_TIMEOUT'' (3 * 1000000000)
    in (v = [] \<or> (\<exists>err. ParseDuration L v = Inl err) \<longrightarrow> T = 3000000000)
     \<and> (v \<noteq> [] \<and> ParseDuration L v = Inr d \<longrightarrow> T = d)
     \<and> (\<forall>ev \<in> set (runProbe L W env a). \<forall>t db q.
           ev = MgmtCall t db q \<or> ev = QueryCall t db q \<or> ev = IterativeQueryCall t db q \<longrightarrow> t = T))"
proof -
  let ?v = "TrimSpace L (Getenv env ''KUSTO_PROBE_TIMEOUT'')"
  let ?T = "getDurationEnv L env ''KUSTO_PROBE_TIMEOUT'' 3000000000"
  have a: "?v = [] \<or> (\<exists>err. ParseDuration L ?v = Inl err) \<longrightarrow> ?T = 3000000000"
    by (auto simp: getDurationEnv_def Let_def)
  have b: "?v \<noteq> [] \<and> ParseDuration L ?v = Inr d \<longrightarrow> ?T = d"
    by (auto simp: getDurationEnv_def Let_def)
  have c: "\<forall>ev \<in> set (runProbe L W env a). \<forall>t db q.
           ev = MgmtCall t db q \<or> ev = QueryCall t db q \<or> ev = IterativeQueryCall t db q \<longrightarrow> t = ?T"
  proof (intro ballI allI impI)
    fix ev t db q
    assume m: "ev \<in> set (runProbe L W env a)"
      and e: "ev = MgmtCall t db q \<or> ev = QueryCall t db q \<or> ev = IterativeQueryCall t db q"
    from e have "isCall ev" by auto
    with m have "ev \<in> set (filter isCall (runProbe L W env a))" by simp
    with set_mono_prefix [OF calls_runProbe_prefix [of L W env a]]
    have "ev \<in> set [MgmtCall ?T [] ''.show version'',
      QueryCall ?T (getenv env ''KUSTO_DATABASE'' ''sampledb'') ''print 1'',
      IterativeQueryCall ?T (getenv env ''KUSTO_DATABASE'' ''sampledb'')
        (sampleQuery (getenv env ''KUSTO_SAMPLE_TABLE'' ''ProbeTest'')
           (getenv env ''KUSTO_PROBE_EXPECT_MESSAGE'' ''kusto-sample-ok''))]"
      by blast
    with e show "t = ?T" by auto
  qed
  from a b c show ?thesis by (simp add: Let_def)
qed

theorem probe_timeout_from_environment_witness:
  "getDurationEnv asciiLib envEmpty ''KUSTO_PROBE_TIMEOUT'' (3 * 1000000000) = 3000000000
   \<and> getDurationEnv asciiLib (envEmpty(''KUSTO_PROBE_TIMEOUT'' \<mapsto> ''soon''))
        ''KUSTO_PROBE_TIMEOUT'' (3 * 1000000000) = 3000000000
   \<and> getDurationEnv asciiLib (envEmpty(''KUSTO_PROBE_TIMEOUT'' \<mapsto> ''   ''))
        ''KUSTO_PROBE_TIMEOUT'' (3 * 1000000000) = 3000000000
   \<and> getDurationEnv asciiLib (envEmpty(''KUSTO_PROBE_TIMEOUT'' \<mapsto> '' 250ms ''))
        ''KUSTO_PROBE_TIMEOUT'' (3 * 1000000000) = 250000000
   \<and> MgmtCall 250000000 [] ''.show version''
       \<in> set (runProbe asciiLib worldHealthy (envEmpty(''KUSTO_PROBE_TIMEOUT'' \<mapsto> '' 250ms '')) ''demo'')"
proof -
  let ?K = "''KUSTO_PROBE_TIMEOUT''"
  have v1: "TrimSpace asciiLib (Getenv envEmpty ?K) = []"
    by code_simp
  have v2: "TrimSpace asciiLib (Getenv (envEmpty(?K \<mapsto> ''soon'')) ?K) = ''soon''"
    and p2: "ParseDuration asciiLib ''soon'' = Inl \<lparr> Error = ''time: invalid duration'', isNetError = False \<rparr>"
    by code_simp+
  have v3: "TrimSpace asciiLib (Getenv (envEmpty(?K \<mapsto> ''   '')) ?K) = []"
    by code_simp
  have v4: "TrimSpace asciiLib (Getenv (envEmpty(?K \<mapsto> '' 250ms '')) ?K) = ''250ms''"
    and p4: "ParseDuration asciiLib ''250ms'' = Inr 250000000"
    by code_simp+
  have m: "MgmtCall 250000000 [] ''.show version''
       \<in> set (runProbe asciiLib worldHealthy (envEmpty(?K \<mapsto> '' 250ms '')) ''demo'')"
    by code_simp
  from probe_timeout_from_environment [of asciiLib envEmpty _ worldHealthy "''demo''"] v1
  have a: "getDurationEnv asciiLib envEmpty ?K (3 * 1000000000) = 3000000000"
    by (simp add: Let_def)
  from probe_timeout_from_environment [of asciiLib "envEmpty(?K \<mapsto> ''soon'')" _ worldHealthy "''demo''"]
    v2 p2
  have b: "getDurationEnv asciiLib (envEmpty(?K \<mapsto> ''soon'')) ?K (3 * 1000000000) = 3000000000"
    by (simp add: Let_def)
  from probe_timeout_from_environment [of asciiLib "envEmpty(?K \<mapsto> ''   '')" _ worldHealthy "''demo''"] v3
  have c: "getDurationEnv asciiLib (envEmpty(?K \<mapsto> ''   '')) ?K (3 * 1000000000) = 3000000000"
    by (simp add: Let_def)
  from probe_timeout_from_environment
         [of asciiLib "envEmpty(?K \<mapsto> '' 250ms '')" 250000000 worldHealthy "''demo''"] v4 p4
  have d: "getDurationEnv asciiLib (envEmpty(?K \<mapsto> '' 250ms '')) ?K (3 * 1000000000) = 250000000"
    by (simp add: Let_def)
  from a b c d m show ?thesis by simp
qed

section \<open>Rows to records\<close>

lemma map_of_setKey: "map_of (setKey k v obj) = (map_of obj)(k \<mapsto> v)"
  by (simp add: setKey_def update_conv')

lemma projectColumn_skips: "length vals \<le> i \<Longrightarrow> projectColumn J vals (i, c) obj = obj"
  by (simp add: projectColumn_def Let_def)

lemma projectColumn_other_key:
  "cname c \<noteq> k \<Longrightarrow> map_of (projectColumn J vals (i, c) obj) k = map_of obj k"
  by (simp add: projectColumn_def Let_def map_of_setKey
      split: option.splits govalue.splits)

lemma projectColumn_keeps_key:
  "map_of obj k \<noteq> None \<Longrightarrow> map_of (projectColumn J vals ic obj) k \<noteq> None"
  by (simp add: projectColumn_def Let_def map_of_setKey
      split: option.splits govalue.splits)


lemma fold_projectColumn_untouched:
  "\<forall>ic \<in> set ics. fst ic < length vals \<longrightarrow> cname (snd ic) \<noteq> k \<Longrightarrow>
   map_of (fold (projectColumn J vals) ics obj) k = map_of obj k"
proof (induction ics arbitrary: obj)
  case Nil
  show ?case by simp
next
  case (Cons ic ics)
  obtain i c where ic: "ic = (i, c)" by (cases ic)
  have step: "map_of (projectColumn J vals (i, c) obj) k = map_of obj k"
  proof (cases "i < length vals")
    case True
    with Cons.prems ic have "cname c \<noteq> k" by simp
    then show ?thesis by (rule projectColumn_other_key)
  next
    case False
    then show ?thesis by (simp add: projectColumn_skips)
  qed
  from Cons.prems have "\<forall>ic \<in> set ics. fst ic < length vals \<longrightarrow> cname (snd ic) \<noteq> k"
    by simp
  from Cons.IH [OF this] step ic show ?case by simp
qed

lemma fold_projectColumn_keeps_key:
  "map_of obj k \<noteq> None \<Longrightarrow> map_of (fold (projectColumn J vals) ics obj) k \<noteq> None"
proof (induction ics arbitrary: obj)
  case Nil
  then show ?case by simp
next
  case (Cons ic ics)
  from Cons.prems have "map_of (projectColumn J vals ic obj) k \<noteq> None"
    by (rule projectColumn_keeps_key)
  from Cons.IH [OF this] show ?case by simp
qed













lemma rowObject_synthetic_present:
  "map_of (rowObject J t r) ''_table'' \<noteq> None
   \<and> map_of (rowObject J t r) ''_kind'' \<noteq> None
   \<and> map_of (rowObject J t r) ''_rowIndex'' \<noteq> None"
  unfolding rowObject_def
  by (intro conjI fold_projectColumn_keeps_key) (simp_all add: map_of_setKey)

lemma rowObject_synthetic_value:
  assumes "\<forall>c \<in> set (take (length (Values r)) (Columns t)). cname c \<noteq> k"
  shows "map_of (rowObject J t r) k =
         map_of (setKey ''_rowIndex'' (GoInt (Index_of r))
                  (setKey ''_kind'' (GoString (Kind t))
                    (setKey ''_table'' (GoString (Name t)) []))) k"
  unfolding rowObject_def
proof (rule fold_projectColumn_untouched, intro ballI impI)
  fix ic
  assume m: "ic \<in> set (enumerate 0 (Columns t))" and l: "fst ic < length (Values r)"
  from m have "fst ic < length (Columns t)" and s: "snd ic = Columns t ! fst ic"
    by (auto simp: in_set_enumerate_eq)
  with l have "snd ic \<in> set (take (length (Values r)) (Columns t))"
    by (auto simp: in_set_conv_nth intro!: exI [of _ "fst ic"])
  with assms show "cname (snd ic) \<noteq> k" by blast
qed

lemma rowsLoop_emits:
  "\<exists>rest. rowsLoop h J t rrs k = map (recordLine h J) (emittedRecords h J t rrs) @ rest
          \<and> (rest = k \<or> (\<exists>msg. rest = logFatalf msg))"
proof (induction rrs)
  case Nil
  show ?case by simp
next
  case (Cons rr rrs)
  show ?case
  proof (cases rr)
    case (RowErr e)
    then show ?thesis by auto
  next
    case (RowOk r)
    show ?thesis
    proof (cases "marshal h J (GoMap (rowObject J t r))")
      case (Inl err)
      with RowOk show ?thesis by (auto simp del: marshal.simps)
    next
      case (Inr enc)
      from Cons.IH obtain rest where
        "rowsLoop h J t rrs k = map (recordLine h J) (emittedRecords h J t rrs) @ rest"
        and "rest = k \<or> (\<exists>msg. rest = logFatalf msg)" by blast
      with RowOk Inr show ?thesis
        by (simp add: recordLine_def del: marshal.simps)
    qed
  qed
qed

lemma emitted_numbering:
  assumes "\<forall>c \<in> set (Columns t). cname c \<noteq> ''_rowIndex''"
  shows "map (\<lambda>obj. map_of obj ''_rowIndex'')
           (emittedRecords h J t
              (map (\<lambda>ix. case snd ix of
                            Inl e \<Rightarrow> RowErr e
                          | Inr vals \<Rightarrow> RowOk \<lparr> Index_of = int (fst ix), Values = vals \<rparr>)
                   (enumerate n raws)))
         = map (\<lambda>i. Some (GoInt (int i)))
             [n ..< n + length (emittedRecords h J t
                (map (\<lambda>ix. case snd ix of
                            Inl e \<Rightarrow> RowErr e
                          | Inr vals \<Rightarrow> RowOk \<lparr> Index_of = int (fst ix), Values = vals \<rparr>)
                   (enumerate n raws)))]"
proof (induction raws arbitrary: n)
  case Nil
  show ?case by simp
next
  case (Cons x raws)
  show ?case
  proof (cases x)
    case (Inl e)
    then show ?thesis by simp
  next
    case (Inr vals)
    let ?r = "\<lparr> Index_of = int n, Values = vals \<rparr>"
    have v: "map_of (rowObject J t ?r) ''_rowIndex'' = Some (GoInt (int n))"
    proof -
      from assms have "\<forall>c \<in> set (take (length (Values ?r)) (Columns t)). cname c \<noteq> ''_rowIndex''"
        by (meson in_set_takeD)
      from rowObject_synthetic_value [OF this] show ?thesis
        by (simp add: map_of_setKey)
    qed
    show ?thesis
    proof (cases "marshal h J (GoMap (rowObject J t ?r))")
      case (Inl err)
      with Inr show ?thesis by (simp del: marshal.simps)
    next
      case (Inr enc)
      let ?F = "\<lambda>ix. case snd ix of
                            Inl e \<Rightarrow> RowErr e
                          | Inr vals \<Rightarrow> RowOk \<lparr> Index_of = int (fst ix), Values = vals \<rparr>"
      let ?rest = "emittedRecords h J t (map ?F (enumerate (Suc n) raws))"
      have em: "emittedRecords h J t (map ?F (enumerate n (x # raws))) = rowObject J t ?r # ?rest"
        using \<open>x = Inr vals\<close> Inr by (simp del: marshal.simps)
      have u: "[n ..< n + length (rowObject J t ?r # ?rest)] = n # [Suc n ..< Suc n + length ?rest]"
      proof -
        have "n < n + length (rowObject J t ?r # ?rest)" by simp
        from upt_conv_Cons [OF this] show ?thesis
          by (simp only: length_Cons add_Suc_right add_Suc)
      qed
      show ?thesis
        unfolding em u using v Cons.IH [of "Suc n"] by simp
    qed
  qed
qed

text \<open>
  C7, for tables whose columns leave the synthetic keys alone. Every record has the keys
  \<open>_table\<close>, \<open>_kind\<close> and \<open>_rowIndex\<close>. When no column that has a value in the row
  bears one of these names, they hold the name of the table, its kind, and the index of
  the row. Within a table that has no column named \<open>_rowIndex\<close>, whose rows arrive as the
  SDK numbers them, the \<open>_rowIndex\<close> values of the records emitted are 0, 1, 2, ... in
  the order of emission. The lines the loop prints for the table are the lines of exactly
  these records, in this order, followed by what comes after the loop or by a fatal error.
\<close>

theorem synthetic_keys_of_a_record:
  "map_of (rowObject J t r) ''_table'' \<noteq> None
   \<and> map_of (rowObject J t r) ''_kind'' \<noteq> None
   \<and> map_of (rowObject J t r) ''_rowIndex'' \<noteq> None
   \<and> ((\<forall>c \<in> set (take (length (Values r)) (Columns t)).
          cname c \<noteq> ''_table'' \<and> cname c \<noteq> ''_kind'' \<and> cname c \<noteq> ''_rowIndex'') \<longrightarrow>
        map_of (rowObject J t r) ''_table'' = Some (GoString (Name t))
        \<and> map_of (rowObject J t r) ''_kind'' = Some (GoString (Kind t))
        \<and> map_of (rowObject J t r) ''_rowIndex'' = Some (GoInt (Index_of r)))
   \<and> ((\<forall>c \<in> set (Columns t). cname c \<noteq> ''_rowIndex'') \<longrightarrow>
        map (\<lambda>obj. map_of obj ''_rowIndex'') (emittedRecords h J t (sdkRows raws))
          = map (\<lambda>n. Some (GoInt (int n))) [0 ..< length (emittedRecords h J t (sdkRows raws))])
   \<and> (\<exists>rest. rowsLoop h J t rrs k = map (recordLine h J) (emittedRecords h J t rrs) @ rest
          \<and> (rest = k \<or> (\<exists>msg. rest = logFatalf msg)))"
proof (intro conjI impI)
  assume a: "\<forall>c \<in> set (take (length (Values r)) (Columns t)).
          cname c \<noteq> ''_table'' \<and> cname c \<noteq> ''_kind'' \<and> cname c \<noteq> ''_rowIndex''"
  then have 1: "\<forall>c \<in> set (take (length (Values r)) (Columns t)). cname c \<noteq> ''_table''"
    and 2: "\<forall>c \<in> set (take (length (Values r)) (Columns t)). cname c \<noteq> ''_kind''"
    and 3: "\<forall>c \<in> set (take (length (Values r)) (Columns t)). cname c \<noteq> ''_rowIndex''"
    by blast+
  show "map_of (rowObject J t r) ''_table'' = Some (GoString (Name t))"
    by (simp add: rowObject_synthetic_value [OF 1] map_of_setKey)
  show "map_of (rowObject J t r) ''_kind'' = Some (GoString (Kind t))"
    by (simp add: rowObject_synthetic_value [OF 2] map_of_setKey)
  show "map_of (rowObject J t r) ''_rowIndex'' = Some (GoInt (Index_of r))"
    by (simp add: rowObject_synthetic_value [OF 3] map_of_setKey)
next
  assume a: "\<forall>c \<in> set (Columns t). cname c \<noteq> ''_rowIndex''"
  from emitted_numbering [OF a, of h J 0 raws]
  show "map (\<lambda>obj. map_of obj ''_rowIndex'') (emittedRecords h J t (sdkRows raws))
          = map (\<lambda>n. Some (GoInt (int n))) [0 ..< length (emittedRecords h J t (sdkRows raws))]"
    by (simp add: sdkRows_def)
next
  show "\<exists>rest. rowsLoop h J t rrs k = map (recordLine h J) (emittedRecords h J t rrs) @ rest
          \<and> (rest = k \<or> (\<exists>msg. rest = logFatalf msg))"
    by (rule rowsLoop_emits)
qed (simp_all add: rowObject_synthetic_present)

theorem synthetic_keys_of_a_record_witness:
  "map_of (rowObject jsonSample eventsTable eventsRow) ''_table'' = Some (GoString ''PrimaryResult'')
   \<and> map_of (rowObject jsonSample eventsTable eventsRow) ''_kind'' = Some (GoString ''PrimaryResult'')
   \<and> map_of (rowObject jsonSample eventsTable eventsRow) ''_rowIndex'' = Some (GoInt 0)
   \<and> length (emittedRecords keyOrder jsonSample (primaryTable []) (sdkRows twoRows)) = 2
   \<and> map (\<lambda>obj. map_of obj ''_rowIndex'')
        (emittedRecords keyOrder jsonSample (primaryTable []) (sdkRows twoRows))
       = [Some (GoInt 0), Some (GoInt 1)]"
proof -
  have c: "\<forall>c \<in> set (take (length (Values eventsRow)) (Columns eventsTable)).
          cname c \<noteq> ''_table'' \<and> cname c \<noteq> ''_kind'' \<and> cname c \<noteq> ''_rowIndex''"
    by (simp add: eventsTable_def eventsRow_def)
  have d: "\<forall>c \<in> set (Columns (primaryTable [])). cname c \<noteq> ''_rowIndex''"
    by (simp add: primaryTable_def probeColumns_def)
  have l: "length (emittedRecords keyOrder jsonSample (primaryTable []) (sdkRows twoRows)) = 2"
    by code_simp
  have n: "Name eventsTable = ''PrimaryResult''" "Kind eventsTable = ''PrimaryResult''"
    "Index_of eventsRow = 0"
    by (simp_all add: eventsTable_def eventsRow_def)
  from synthetic_keys_of_a_record [of jsonSample eventsTable eventsRow] c n
  have a: "map_of (rowObject jsonSample eventsTable eventsRow) ''_table'' = Some (GoString ''PrimaryResult'')
   \<and> map_of (rowObject jsonSample eventsTable eventsRow) ''_kind'' = Some (GoString ''PrimaryResult'')
   \<and> map_of (rowObject jsonSample eventsTable eventsRow) ''_rowIndex'' = Some (GoInt 0)"
    by simp
  from synthetic_keys_of_a_record [of jsonSample "primaryTable []" _ keyOrder twoRows] d
  have "map (\<lambda>obj. map_of obj ''_rowIndex'')
        (emittedRecords keyOrder jsonSample (primaryTable []) (sdkRows twoRows))
       = map (\<lambda>n. Some (GoInt (int n)))
           [0 ..< length (emittedRecords keyOrder jsonSample (primaryTable []) (sdkRows twoRows))]"
    by blast
  then have b: "map (\<lambda>obj. map_of obj ''_rowIndex'')
        (emittedRecords keyOrder jsonSample (primaryTable []) (sdkRows twoRows))
       = [Some (GoInt 0), Some (GoInt 1)]"
    by (simp add: l upt_rec)
  from a l b show ?thesis by simp
qed

text \<open>
  C7 as stated fails for a table with a column named \<open>_rowIndex\<close>: the column is written
  after the synthetic key and replaces it. The two rows, which the SDK numbers 0 and 1,
  are emitted with \<open>_rowIndex\<close> 7 and 3.
\<close>

theorem synthetic_keys_counterexample:
  "Rows collisionTable =
     [RowOk \<lparr> Index_of = 0, Values = [Some (Other 7)] \<rparr>,
      RowOk \<lparr> Index_of = 1, Values = [Some (Other 3)] \<rparr>]
   \<and> length (emittedRecords keyOrder jsonSample collisionTable (Rows collisionTable)) = 2
   \<and> map_of (emittedRecords keyOrder jsonSample collisionTable (Rows collisionTable) ! 0) ''_rowIndex''
       = Some (Other 7)
   \<and> map_of (emittedRecords keyOrder jsonSample collisionTable (Rows collisionTable) ! 1) ''_rowIndex''
       = Some (Other 3)
   \<and> stdoutBytes (queryMode worldCollision jsonSample keyOrder envQuery) =
       ''{'' @ [CHR 0x22] @ ''_kind'' @ [CHR 0x22] @ '':'' @ [CHR 0x22] @ ''PrimaryResult'' @ [CHR 0x22]
       @ '','' @ [CHR 0x22] @ ''_rowIndex'' @ [CHR 0x22] @ '':7,'' @ [CHR 0x22] @ ''_table'' @ [CHR 0x22]
       @ '':'' @ [CHR 0x22] @ ''PrimaryResult'' @ [CHR 0x22] @ ''}'' @ nl
       @ ''{'' @ [CHR 0x22] @ ''_kind'' @ [CHR 0x22] @ '':'' @ [CHR 0x22] @ ''PrimaryResult'' @ [CHR 0x22]
       @ '','' @ [CHR 0x22] @ ''_rowIndex'' @ [CHR 0x22] @ '':3,'' @ [CHR 0x22] @ ''_table'' @ [CHR 0x22]
       @ '':'' @ [CHR 0x22] @ ''PrimaryResult'' @ [CHR 0x22] @ ''}'' @ nl"
  by code_simp

section \<open>The order of the keys of a serialized record\<close>

lemma sorted_MapRange: "sort_key fst (MapRange h es) = sort_key fst (AList.clearjunk es)"
proof (rule sort_key_inj_key_eq)
  show "mset (MapRange h es) = mset (sort_key fst (AList.clearjunk es))"
    by (simp add: MapRange_def)
  have "distinct (map fst (AList.clearjunk es))"
    by (rule distinct_clearjunk)
  then have "inj_on fst (set (AList.clearjunk es))"
    by (simp add: distinct_map)
  then show "inj_on fst (set (MapRange h es))"
    by (simp add: MapRange_def)
  show "sorted (map fst (sort_key fst (AList.clearjunk es)))"
    by (rule sorted_sort_key)
qed

lemma marshal_order_free: "marshal h1 J v = marshal h2 J v"
proof (induction v)
  case (Slice vs)
  then have "map (marshal h1 J) vs = map (marshal h2 J) vs"
    by simp
  then show ?case by (simp only: marshal.simps)
next
  case (GoMap es)
  have "map (\<lambda>kv. (fst kv, marshal h1 J (snd kv))) es = map (\<lambda>kv. (fst kv, marshal h2 J (snd kv))) es"
  proof (rule map_cong [OF refl])
    fix kv
    assume m: "kv \<in> set es"
    obtain k v where kv: "kv = (k, v)" by (cases kv)
    have "v \<in> Basic_BNFs.snds kv" by (simp add: kv)
    from GoMap.IH [OF m this] have "marshal h1 J (snd kv) = marshal h2 J (snd kv)"
      by (simp add: kv)
    then show "(fst kv, marshal h1 J (snd kv)) = (fst kv, marshal h2 J (snd kv))" by simp
  qed
  then show ?case
    by (simp only: marshal.simps sorted_MapRange)
next
  case (BytesPtr x)
  then show ?case by (cases x) simp_all
qed simp_all

lemma rowsLoop_order_free: "rowsLoop h1 J t rrs k = rowsLoop h2 J t rrs k"
proof (induction rrs)
  case Nil
  show ?case by simp
next
  case (Cons rr rrs)
  then show ?case
    by (cases rr)
       (simp_all add: marshal_order_free [of h1 J _ h2] del: marshal.simps split: sum.splits)
qed

lemma tablesLoop_order_free: "tablesLoop h1 J trs k = tablesLoop h2 J trs k"
proof (induction trs)
  case Nil
  show ?case by simp
next
  case (Cons tr trs)
  then show ?case
    by (cases tr) (simp_all add: rowsLoop_order_free [of h1 J _ _ _ h2])
qed

text \<open>
  C9. The events of a run, and with them the bytes on standard output, are the same for
  any two orders \<open>h1\<close> and \<open>h2\<close> in which Go may range over the maps of the run, the
  configuration and the answers of the service being the same; so is the line written
  for each record, whose keys are sorted by the encoder.
\<close>

theorem ndjson_independent_of_map_order:
  "main L W J h1 env Args = main L W J h2 env Args
   \<and> stdoutBytes (queryMode W J h1 env) = stdoutBytes (queryMode W J h2 env)
   \<and> marshal h1 J (GoMap (rowObject J t r)) = marshal h2 J (GoMap (rowObject J t r))"
proof -
  have "queryMode W J h1 env = queryMode W J h2 env"
    by (simp only: queryMode_def tablesLoop_order_free [of h1 J _ _ h2])
  then show ?thesis
    by (simp add: main_def marshal_order_free [of h1 J _ h2] del: marshal.simps)
qed

theorem ndjson_independent_of_map_order_witness:
  "stdoutBytes (queryMode worldEvents jsonSample (\<lambda>es k. 100 - length k) envQuery)
     = stdoutBytes (queryMode worldEvents jsonSample (\<lambda>es k. 0) envQuery)
   \<and> stdoutBytes (queryMode worldEvents jsonSample (\<lambda>es k. 0) envQuery) =
       ''{'' @ [CHR 0x22] @ ''Gone'' @ [CHR 0x22] @ '':null,'' @ [CHR 0x22] @ ''Id'' @ [CHR 0x22] @ '':7,''
       @ [CHR 0x22] @ ''Props'' @ [CHR 0x22] @ '':{'' @ [CHR 0x22] @ ''a'' @ [CHR 0x22] @ '':1,''
       @ [CHR 0x22] @ ''b'' @ [CHR 0x22] @ '':2},'' @ [CHR 0x22] @ ''Raw'' @ [CHR 0x22] @ '':''
       @ [CHR 0x22] @ ''{oops'' @ [CHR 0x22] @ '','' @ [CHR 0x22] @ ''_kind'' @ [CHR 0x22] @ '':''
       @ [CHR 0x22] @ ''PrimaryResult'' @ [CHR 0x22] @ '','' @ [CHR 0x22] @ ''_rowIndex'' @ [CHR 0x22]
       @ '':0,'' @ [CHR 0x22] @ ''_table'' @ [CHR 0x22] @ '':'' @ [CHR 0x22] @ ''PrimaryResult''
       @ [CHR 0x22] @ ''}'' @ nl"
proof -
  have bytes: "stdoutBytes (queryMode worldEvents jsonSample (\<lambda>es k. 0) envQuery) =
       ''{'' @ [CHR 0x22] @ ''Gone'' @ [CHR 0x22] @ '':null,'' @ [CHR 0x22] @ ''Id'' @ [CHR 0x22] @ '':7,''
       @ [CHR 0x22] @ ''Props'' @ [CHR 0x22] @ '':{'' @ [CHR 0x22] @ ''a'' @ [CHR 0x22] @ '':1,''
       @ [CHR 0x22] @ ''b'' @ [CHR 0x22] @ '':2},'' @ [CHR 0x22] @ ''Raw'' @ [CHR 0x22] @ '':''
       @ [CHR 0x22] @ ''{oops'' @ [CHR 0x22] @ '','' @ [CHR 0x22] @ ''_kind'' @ [CHR 0x22] @ '':''
       @ [CHR 0x22] @ ''PrimaryResult'' @ [CHR 0x22] @ '','' @ [CHR 0x22] @ ''_rowIndex'' @ [CHR 0x22]
       @ '':0,'' @ [CHR 0x22] @ ''_table'' @ [CHR 0x22] @ '':'' @ [CHR 0x22] @ ''PrimaryResult''
       @ [CHR 0x22] @ ''}'' @ nl"
    by code_simp
  from ndjson_independent_of_map_order
         [of _ worldEvents jsonSample "\<lambda>es k. 100 - length k" envQuery _ "\<lambda>es k. 0"]
  have "stdoutBytes (queryMode worldEvents jsonSample (\<lambda>es k. 100 - length k) envQuery)
     = stdoutBytes (queryMode worldEvents jsonSample (\<lambda>es k. 0) envQuery)"
    by blast
  with bytes show ?thesis by simp
qed

section \<open>What a failing run leaves open\<close>

text \<open>
  C5 fails on the code. Three failing runs, event by event: a query the service refuses
  in the default mode, a row error in the middle of a stream, and a probe whose management
  call times out. In each the client was created, in the second the dataset was opened as
  well, and the run ends in the exit with status 1 without the deferred \<open>Close\<close> of
  either: \<open>log.Fatalf\<close> and \<open>os.Exit\<close> do not run deferred calls. A passing probe
  closes its client before it exits.
\<close>

theorem failure_paths_skip_close:
  "New worldQueryRefused ''https://demo.eastus.kusto.windows.net'' = None
   \<and> New worldRowError ''https://demo.eastus.kusto.windows.net'' = None
   \<and> New worldMgmtDown ''https://demo.eastus.kusto.windows.net'' = None
   \<and> queryMode worldQueryRefused jsonSample (\<lambda>es k. 0) envQuery =
     [NewClient ''https://demo.eastus.kusto.windows.net'',
      IterativeQueryCall 120000000000 ''sampledb'' ''datatable(_rowIndex:long)[7, 3]'',
      Stderr ''query submission failed: Request FORBIDDEN (403)'',
      Exit 1]
   \<and> CloseClient \<notin> set (queryMode worldQueryRefused jsonSample (\<lambda>es k. 0) envQuery)
   \<and> queryMode worldRowError jsonSample (\<lambda>es k. 0) envQuery =
     [NewClient ''https://demo.eastus.kusto.windows.net'',
      IterativeQueryCall 120000000000 ''sampledb'' ''datatable(_rowIndex:long)[7, 3]'',
      Stdout (''{'' @ [CHR 0x22] @ ''Message'' @ [CHR 0x22] @ '':'' @ [CHR 0x22] @ ''kusto-sample-ok''
         @ [CHR 0x22] @ '','' @ [CHR 0x22] @ ''When'' @ [CHR 0x22] @ '':20260101,''
         @ [CHR 0x22] @ ''_kind'' @ [CHR 0x22] @ '':'' @ [CHR 0x22] @ ''PrimaryResult'' @ [CHR 0x22]
         @ '','' @ [CHR 0x22] @ ''_rowIndex'' @ [CHR 0x22] @ '':0,'' @ [CHR 0x22] @ ''_table'' @ [CHR 0x22]
         @ '':'' @ [CHR 0x22] @ ''PrimaryResult'' @ [CHR 0x22] @ ''}'' @ nl),
      Stderr ''row error: dial tcp 10.0.0.1:443: i/o timeout'',
      Exit 1]
   \<and> CloseDataset \<notin> set (queryMode worldRowError jsonSample (\<lambda>es k. 0) envQuery)
   \<and> CloseClient \<notin> set (queryMode worldRowError jsonSample (\<lambda>es k. 0) envQuery)
   \<and> runProbe asciiLib worldMgmtDown envEmpty ''demo'' =
     [NewClient ''https://demo.eastus.kusto.windows.net'',
      MgmtCall 3000000000 [] ''.show version'',
      Stdout (''FAIL mgmt (85ms): .show version failed: dial tcp 10.0.0.1:443: i/o timeout'' @ nl),
      Stdout (''SUGGEST mgmt: Verify KUSTO_CLUSTER endpoint is correct (https://<cluster>.<region>.kusto.windows.net) and reachable.'' @ nl),
      Exit 1]
   \<and> CloseClient \<notin> set (runProbe asciiLib worldMgmtDown envEmpty ''demo'')
   \<and> last (butlast (runProbe asciiLib worldHealthy envEmpty ''demo'')) = CloseClient
   \<and> last (runProbe asciiLib worldHealthy envEmpty ''demo'') = Exit 0"
proof -
  have a: "queryMode worldQueryRefused jsonSample (\<lambda>es k. 0) envQuery =
     [NewClient ''https://demo.eastus.kusto.windows.net'',
      IterativeQueryCall 120000000000 ''sampledb'' ''datatable(_rowIndex:long)[7, 3]'',
      Stderr ''query submission failed: Request FORBIDDEN (403)'',
      Exit 1]"
    by (simp add: queryMode_def envQuery_def getenvOrExit_def Getenv_def getenv_def Let_def
        worldQueryRefused_def worldHealthy_def logFatalf_def errForbidden_def)
  have b: "queryMode worldRowError jsonSample (\<lambda>es k. 0) envQuery =
     [NewClient ''https://demo.eastus.kusto.windows.net'',
      IterativeQueryCall 120000000000 ''sampledb'' ''datatable(_rowIndex:long)[7, 3]'',
      Stdout (''{'' @ [CHR 0x22] @ ''Message'' @ [CHR 0x22] @ '':'' @ [CHR 0x22] @ ''kusto-sample-ok''
         @ [CHR 0x22] @ '','' @ [CHR 0x22] @ ''When'' @ [CHR 0x22] @ '':20260101,''
         @ [CHR 0x22] @ ''_kind'' @ [CHR 0x22] @ '':'' @ [CHR 0x22] @ ''PrimaryResult'' @ [CHR 0x22]
         @ '','' @ [CHR 0x22] @ ''_rowIndex'' @ [CHR 0x22] @ '':0,'' @ [CHR 0x22] @ ''_table'' @ [CHR 0x22]
         @ '':'' @ [CHR 0x22] @ ''PrimaryResult'' @ [CHR 0x22] @ ''}'' @ nl),
      Stderr ''row error: dial tcp 10.0.0.1:443: i/o timeout'',
      Exit 1]"
    by code_simp
  have c: "runProbe asciiLib worldMgmtDown envEmpty ''demo'' =
     [NewClient ''https://demo.eastus.kusto.windows.net'',
      MgmtCall 3000000000 [] ''.show version'',
      Stdout (''FAIL mgmt (85ms): .show version failed: dial tcp 10.0.0.1:443: i/o timeout'' @ nl),
      Stdout (''SUGGEST mgmt: Verify KUSTO_CLUSTER endpoint is correct (https://<cluster>.<region>.kusto.windows.net) and reachable.'' @ nl),
      Exit 1]"
    by code_simp
  have d: "last (butlast (runProbe asciiLib worldHealthy envEmpty ''demo'')) = CloseClient
      \<and> last (runProbe asciiLib worldHealthy envEmpty ''demo'') = Exit 0"
    by code_simp
  have a': "CloseClient \<notin> set (queryMode worldQueryRefused jsonSample (\<lambda>es k. 0) envQuery)"
    unfolding a by simp
  have b': "CloseDataset \<notin> set (queryMode worldRowError jsonSample (\<lambda>es k. 0) envQuery)
      \<and> CloseClient \<notin> set (queryMode worldRowError jsonSample (\<lambda>es k. 0) envQuery)"
    unfolding b by simp
  have c': "CloseClient \<notin> set (runProbe asciiLib worldMgmtDown envEmpty ''demo'')"
    unfolding c by simp
  have n: "New worldQueryRefused ''https://demo.eastus.kusto.windows.net'' = None"
    "New worldRowError ''https://demo.eastus.kusto.windows.net'' = None"
    "New worldMgmtDown ''https://demo.eastus.kusto.windows.net'' = None"
    by (simp_all add: worldQueryRefused_def worldRowError_def worldMgmtDown_def worldHealthy_def)
  show ?thesis
    by (intro conjI n a a' b b' [THEN conjunct1] b' [THEN conjunct2] c c'
        d [THEN conjunct1] d [THEN conjunct2])
qed

end
